theory Spec2Isabelle
  imports Complex_Main "HOL-Library.Sublist"
begin

section \<open>Data model\<close>

text \<open>
  The program is \<^verbatim>\<open>extract_texas_infrastructure.py\<close>. Its data are pandas and
  geopandas frames. A cell of a frame is a string or a float; a float in a cell is read
  as the real number it stands for (cells are only copied and compared), and pandas'
  missing value (\<^verbatim>\<open>NaN\<close>, \<^verbatim>\<open>None\<close>) is the absence of the key in the
  row, so a row is a partial map from column names to cells. A frame lists its columns
  apart from its rows, because the source branches on \<^verbatim>\<open>col in gdf.columns\<close>.
\<close>

datatype cell = Str string | Num real

type_synonym row = "string \<rightharpoonup> cell"

record frame =
  columns :: "string list"
  rows :: "row list"

text \<open>
  A \<^verbatim>\<open>GeoDataFrame\<close> as the query client returns it: every feature has a geometry of
  the library's type \<open>'g\<close> next to its attribute cells; \<open>gcolumns\<close> are the columns other
  than the geometry column, \<open>index_names\<close> the names of the index levels (their values
  sit in the row under these names), \<open>crs\<close> the coordinate reference system.
\<close>

record 'g geoframe =
  crs :: "string option"
  index_names :: "string list"
  gcolumns :: "string list"
  features :: "('g \<times> row) list"

text \<open>
  The result of a float64 computation: a finite value (the real number it stands for), an
  infinity or \<^verbatim>\<open>NaN\<close>.
\<close>

datatype float64 = Finite real | PlusInfinity | MinusInfinity | NaN

text \<open>The settings object \<^verbatim>\<open>ox.settings\<close> of the query client, as far as the program writes it.\<close>

record ox_settings =
  overpass_settings :: string
  timeout :: nat
  log_console :: bool

text \<open>What one call of \<^verbatim>\<open>ox.features_from_place\<close> does: it raises, or it returns a frame or \<^verbatim>\<open>None\<close>.\<close>

datatype 'g client_result = Raises string | Returns "'g geoframe option"

text \<open>
  The external collaborators, taken as parameters: the query client (which reads the
  settings in force at the call), the geometry library (\<^verbatim>\<open>.centroid\<close>, \<^verbatim>\<open>.x\<close>, \<^verbatim>\<open>.y\<close>; a
  coordinate that is \<^verbatim>\<open>NaN\<close>, as for the centroid of an empty or missing geometry,
  is \<open>None\<close>), pandas' \<^verbatim>\<open>Series.mean\<close> (\<open>series_mean\<close>: from the cells of a column to the
  float64 value pandas computes for their mean; how pandas sums and rounds is not part
  of the program), the two file writers (each returns the file
  system it leaves behind and the exception it raised, if any; \<open>to_file\<close> stands for
  building the point frame and writing it), \<^verbatim>\<open>os.path.exists\<close> and \<^verbatim>\<open>os.getcwd\<close>.
\<close>

record ('g, 'fs) env =
  features_from_place :: "ox_settings \<Rightarrow> string \<Rightarrow> (string \<times> string list) list \<Rightarrow> 'g client_result"
  centroid :: "'g \<Rightarrow> 'g"
  coord_x :: "'g \<Rightarrow> real option"
  coord_y :: "'g \<Rightarrow> real option"
  series_mean :: "cell option list \<Rightarrow> float64"
  to_csv :: "frame \<Rightarrow> string \<Rightarrow> 'fs \<Rightarrow> 'fs \<times> string option"
  to_file :: "frame \<Rightarrow> string \<Rightarrow> 'fs \<Rightarrow> 'fs \<times> string option"
  path_exists :: "'fs \<Rightarrow> string \<Rightarrow> bool"
  getcwd :: string

text \<open>
  The mutable state of a run: the client's settings, the queries sent so far (each with
  the settings in force when it was sent) and the file system. What the program prints
  is left out.
\<close>

record 'fs world =
  ox :: ox_settings
  queries :: "(ox_settings \<times> string) list"
  fs :: 'fs

section \<open>Configuration\<close>

definition HISTORICAL_DATE :: string where
  "HISTORICAL_DATE = ''2022-06-01T00:00:00Z''"

definition LOCATIONS :: "string list" where
  "LOCATIONS = [''Houston, Texas, USA'', ''Dallas, Texas, USA'']"

datatype tag_values = One string | Many "string list"

definition INFRASTRUCTURE_TAGS :: "(string \<times> tag_values) list" where
  "INFRASTRUCTURE_TAGS =
     [(''power'', Many [''plant'', ''generator'', ''substation'']),
      (''amenity'', Many [''hospital'', ''fire_station'', ''police'']),
      (''telecom'', Many [''data_center'']),
      (''man_made'', Many [''water_works'', ''wastewater_plant'']),
      (''aeroway'', Many [''aerodrome''])]"

definition OUTPUT_FILE :: string where
  "OUTPUT_FILE = ''texas_critical_infra_points_2022.csv''"

definition OUTPUT_GEOJSON :: string where
  "OUTPUT_GEOJSON = ''texas_critical_infra_points_2022.geojson''"

definition HOUSTON_DALLAS_LAT_BOUNDS :: "real \<times> real" where
  "HOUSTON_DALLAS_LAT_BOUNDS = (29.0, 33.5)"

definition HOUSTON_DALLAS_LON_BOUNDS :: "real \<times> real" where
  "HOUSTON_DALLAS_LON_BOUNDS = (-97.5, -94.5)"

definition KEEP_COLUMNS :: "string list" where
  "KEEP_COLUMNS =
     [''name'', ''power'', ''amenity'', ''man_made'', ''telecom'', ''aeroway'',
      ''generator:source'', ''addr:full'', ''addr:street'', ''addr:city'',
      ''operator'', ''capacity'', ''voltage'', ''lat'', ''lon'', ''city_source'']"

section \<open>Helper functions\<close>

definition configure_osmnx_historical :: "'fs world \<Rightarrow> 'fs world" where
  \<open>configure_osmnx_historical w =
     w\<lparr>ox := (ox w)\<lparr>overpass_settings :=
                       ''[out:json][timeout:180][date:'' @ [CHR 0x22] @ HISTORICAL_DATE @ [CHR 0x22] @ '']'',
                     timeout := 180, log_console := False\<rparr>\<rparr>\<close>

definition configure_osmnx_current :: "'fs world \<Rightarrow> 'fs world" where
  "configure_osmnx_current w =
     w\<lparr>ox := (ox w)\<lparr>overpass_settings := ''[out:json][timeout:180]'',
                     timeout := 180, log_console := False\<rparr>\<rparr>"

definition build_tags_dict :: "(string \<times> string list) list" where
  "build_tags_dict =
     map (\<lambda>(key, values). (key, case values of Many vs \<Rightarrow> vs | One v \<Rightarrow> [v])) INFRASTRUCTURE_TAGS"

text \<open>
  \<^verbatim>\<open>fetch_infrastructure_data\<close>: one query; an exception of the client and an empty or
  missing answer all become \<^verbatim>\<open>None\<close>. The parameter \<^verbatim>\<open>use_historical\<close> is not read by
  the source: the mode reaches the client through the settings only.
\<close>

definition fetch_infrastructure_data ::
  "('g, 'fs) env \<Rightarrow> string \<Rightarrow> (string \<times> string list) list \<Rightarrow> bool \<Rightarrow> 'fs world
     \<Rightarrow> 'g geoframe option \<times> 'fs world" where
  "fetch_infrastructure_data E location tags use_historical w =
     (let w' = w\<lparr>queries := queries w @ [(ox w, location)]\<rparr> in
      case features_from_place E (ox w) location tags of
        Raises e \<Rightarrow> (None, w')
      | Returns None \<Rightarrow> (None, w')
      | Returns (Some gdf) \<Rightarrow> if length (features gdf) = 0 then (None, w') else (Some gdf, w'))"

text \<open>Assigning a column: a new name goes to the end of the column list, an old one stays where it is.\<close>

definition add_column :: "string \<Rightarrow> string list \<Rightarrow> string list" where
  "add_column c cols = (if c \<in> set cols then cols else cols @ [c])"

definition convert_to_centroids :: "('g, 'fs) env \<Rightarrow> 'g geoframe option \<Rightarrow> 'g geoframe option" where
  "convert_to_centroids E gdf =
     (case gdf of
        None \<Rightarrow> None
      | Some g \<Rightarrow>
          if length (features g) = 0 then None
          else Some (g\<lparr>crs := (case crs g of None \<Rightarrow> Some ''EPSG:4326'' | Some c \<Rightarrow> Some c),
                       gcolumns := add_column ''lat'' (add_column ''lon'' (gcolumns g)),
                       features :=
                         map (\<lambda>(geom, r).
                                (let c = centroid E geom
                                 in (c, r(''lon'' := map_option Num (coord_x E c),
                                          ''lat'' := map_option Num (coord_y E c)))))
                             (features g)\<rparr>))"

definition tag_columns :: "string list" where
  "tag_columns = [''power'', ''amenity'', ''man_made'', ''telecom'', ''aeroway'']"

text \<open>
  \<^verbatim>\<open>clean_and_filter\<close>. \<^verbatim>\<open>reset_index\<close> puts the index levels in front of the columns
  (the names of the index levels are taken to differ from the column names, as they do
  in the client's frames; pandas raises otherwise);
  the row mask keeps a row with a non-null cell in one of the tag columns the frame has,
  and is applied only when the frame has such a column; the projection drops the
  geometry, so the result is a plain frame. It is returned also when no row is left.
\<close>

definition clean_and_filter :: "'g geoframe option \<Rightarrow> string \<Rightarrow> frame option" where
  "clean_and_filter gdf city_name =
     (case gdf of
        None \<Rightarrow> None
      | Some g \<Rightarrow>
          if length (features g) = 0 then None
          else
            (let cols1 = add_column ''city_source'' (gcolumns g);
                 rows1 = map (\<lambda>(geom, r). r(''city_source'' \<mapsto> Str city_name)) (features g);
                 cols2 = index_names g @ cols1;
                 existing_tag_cols = filter (\<lambda>col. col \<in> set cols2) tag_columns;
                 rows2 = (if existing_tag_cols \<noteq> []
                          then filter (\<lambda>r. list_ex (\<lambda>col. r col \<noteq> None) existing_tag_cols) rows1
                          else rows1);
                 available_cols = filter (\<lambda>col. col \<in> set cols2) KEEP_COLUMNS;
                 available_cols = (if ''osmid'' \<in> set cols2 then ''osmid'' # available_cols
                                   else available_cols);
                 available_cols = (if ''element_type'' \<in> set cols2
                                   then ''element_type'' # available_cols else available_cols)
             in Some \<lparr>columns = available_cols,
                      rows = map (\<lambda>r. r |` set available_cols) rows2\<rparr>))"

section \<open>Verification\<close>

text \<open>
  The entries of \<^verbatim>\<open>report["errors"]\<close>. Each constructor is one string of the source,
  with the values the source formats into it:
  \<^verbatim>\<open>"DataFrame is empty or None"\<close>,
  \<^verbatim>\<open>f"Volume check failed: only {len(df)} records"\<close>,
  \<^verbatim>\<open>"No valid coordinates found"\<close>,
  \<^verbatim>\<open>"lat/lon columns missing"\<close>,
  \<^verbatim>\<open>f"Mean coords ({mean_lat:.4f}, {mean_lon:.4f}) outside expected bounds"\<close>,
  \<^verbatim>\<open>"File creation failed"\<close>.
\<close>

datatype diagnostic =
    Empty_Or_None
  | Volume_Failed nat
  | No_Valid_Coordinates
  | Columns_Missing
  | Mean_Outside float64 float64
  | File_Creation_Failed

record report =
  check_volume :: bool
  check_coordinates :: bool
  check_location_sanity :: bool
  check_file :: bool
  total_records :: nat
  errors :: "diagnostic list"

definition len :: "frame \<Rightarrow> nat" where
  "len df = length (rows df)"

text \<open>\<^verbatim>\<open>df[c].notna().sum()\<close>: the number of rows with a value in column \<open>c\<close>.\<close>

definition notna_sum :: "string \<Rightarrow> frame \<Rightarrow> nat" where
  "notna_sum c df = length (filter (\<lambda>r. r c \<noteq> None) (rows df))"

text \<open>
  \<^verbatim>\<open>df[c].mean()\<close>: the cells of column \<open>c\<close>, row by row, handed to pandas' mean.
\<close>

definition mean :: "('g, 'fs) env \<Rightarrow> string \<Rightarrow> frame \<Rightarrow> float64" where
  "mean E c df = series_mean E (map (\<lambda>r. r c) (rows df))"

text \<open>
  \<^verbatim>\<open>lo <= m <= hi\<close> on floats with finite bounds: false for \<^verbatim>\<open>NaN\<close> and for both
  infinities.
\<close>

definition within_bounds :: "real \<times> real \<Rightarrow> float64 \<Rightarrow> bool" where
  "within_bounds bounds m =
     (case m of Finite x \<Rightarrow> fst bounds \<le> x \<and> x \<le> snd bounds | _ \<Rightarrow> False)"

definition initial_report :: report where
  "initial_report =
     \<lparr>check_volume = False, check_coordinates = False, check_location_sanity = False,
      check_file = False, total_records = 0, errors = []\<rparr>"

definition volume_check :: "frame \<Rightarrow> report \<Rightarrow> report" where
  "volume_check df rep =
     (if len df > 100 then rep\<lparr>check_volume := True\<rparr>
      else rep\<lparr>errors := errors rep @ [Volume_Failed (len df)]\<rparr>)"

definition coordinate_check :: "frame \<Rightarrow> report \<Rightarrow> report" where
  "coordinate_check df rep =
     (if ''lat'' \<in> set (columns df) \<and> ''lon'' \<in> set (columns df) then
        (let lat_valid = notna_sum ''lat'' df; lon_valid = notna_sum ''lon'' df
         in if lat_valid > 0 \<and> lon_valid > 0 then rep\<lparr>check_coordinates := True\<rparr>
            else rep\<lparr>errors := errors rep @ [No_Valid_Coordinates]\<rparr>)
      else rep\<lparr>errors := errors rep @ [Columns_Missing]\<rparr>)"

definition location_sanity_check :: "('g, 'fs) env \<Rightarrow> frame \<Rightarrow> report \<Rightarrow> report" where
  "location_sanity_check E df rep =
     (if ''lat'' \<in> set (columns df) \<and> ''lon'' \<in> set (columns df) then
        (let mean_lat = mean E ''lat'' df; mean_lon = mean E ''lon'' df;
             lat_ok = within_bounds HOUSTON_DALLAS_LAT_BOUNDS mean_lat;
             lon_ok = within_bounds HOUSTON_DALLAS_LON_BOUNDS mean_lon
         in if lat_ok \<and> lon_ok then rep\<lparr>check_location_sanity := True\<rparr>
            else rep\<lparr>errors := errors rep @ [Mean_Outside mean_lat mean_lon]\<rparr>)
      else rep)"

text \<open>
  \<^verbatim>\<open>verify_data\<close>: the three checks run one after the other on the same report; the
  fourth field, \<open>check_file\<close>, is left for the caller. The environment is a parameter
  for the sake of pandas' mean.
\<close>

definition verify_data :: "('g, 'fs) env \<Rightarrow> frame option \<Rightarrow> bool \<times> report" where
  "verify_data E df =
     (case df of
        None \<Rightarrow> (False, initial_report\<lparr>errors := [Empty_Or_None]\<rparr>)
      | Some d \<Rightarrow>
          if len d = 0 then (False, initial_report\<lparr>errors := [Empty_Or_None]\<rparr>)
          else
            (let rep = initial_report\<lparr>total_records := len d\<rparr>;
                 rep = volume_check d rep;
                 rep = coordinate_check d rep;
                 rep = location_sanity_check E d rep;
                 success = (check_volume rep \<and> check_coordinates rep \<and> check_location_sanity rep)
             in (success, rep)))"

section \<open>Output\<close>

text \<open>
  \<^verbatim>\<open>save_output\<close>. The whole body is one \<^verbatim>\<open>try\<close> block whose handler returns
  \<^verbatim>\<open>False\<close>, so an exception of either writer ends there. \<^verbatim>\<open>if geojson_path\<close> is
  false for \<^verbatim>\<open>None\<close> and for the empty string.
\<close>

definition save_output ::
  "('g, 'fs) env \<Rightarrow> frame \<Rightarrow> string \<Rightarrow> string option \<Rightarrow> 'fs \<Rightarrow> bool \<times> 'fs" where
  "save_output E df csv_path geojson_path files =
     (case to_csv E df csv_path files of
        (files1, Some e) \<Rightarrow> (False, files1)
      | (files1, None) \<Rightarrow>
          if path_exists E files1 csv_path then
            (case geojson_path of
               Some p \<Rightarrow>
                 if p \<noteq> [] \<and> ''lat'' \<in> set (columns df) \<and> ''lon'' \<in> set (columns df) then
                   (case to_file E df p files1 of
                      (files2, Some e) \<Rightarrow> (False, files2)
                    | (files2, None) \<Rightarrow> (True, files2))
                 else (True, files1)
             | None \<Rightarrow> (True, files1))
          else (False, files1))"

section \<open>Main execution\<close>

text \<open>
  The loop over the regions, which \<^verbatim>\<open>main\<close> writes twice with the same body (once for
  each mode): fetch, and when the fetch gave a frame, normalise, clean and collect the
  result if it has a row. \<^verbatim>\<open>location.split(",")[0]\<close> is the text before the first comma.
\<close>

fun region_loop ::
  "('g, 'fs) env \<Rightarrow> string list \<Rightarrow> (string \<times> string list) list \<Rightarrow> bool \<Rightarrow> frame list
     \<Rightarrow> 'fs world \<Rightarrow> frame list \<times> 'fs world" where
  "region_loop E [] tags use_historical all_data w = (all_data, w)"
| "region_loop E (location # locations) tags use_historical all_data w =
     (case fetch_infrastructure_data E location tags use_historical w of
        (None, w') \<Rightarrow> region_loop E locations tags use_historical all_data w'
      | (Some gdf, w') \<Rightarrow>
          (let gdf1 = convert_to_centroids E (Some gdf);
               city_name = takeWhile (\<lambda>c. c \<noteq> CHR '','') location
           in case clean_and_filter gdf1 city_name of
                None \<Rightarrow> region_loop E locations tags use_historical all_data w'
              | Some d \<Rightarrow>
                  if len d > 0 then region_loop E locations tags use_historical (all_data @ [d]) w'
                  else region_loop E locations tags use_historical all_data w'))"

text \<open>
  \<^verbatim>\<open>pd.concat(all_data, ignore_index=True)\<close>: the rows one frame after the other, the
  columns in the order of their first appearance.
\<close>

definition concat_frames :: "frame list \<Rightarrow> frame" where
  "concat_frames dfs =
     \<lparr>columns = foldl (\<lambda>cols c. add_column c cols) [] (concat (map columns dfs)),
      rows = concat (map rows dfs)\<rparr>"

text \<open>
  \<^verbatim>\<open>drop_duplicates(subset=..., keep='first')\<close>: a row goes when an earlier row has the
  same cells in the subset columns. Two missing cells count as the same, as pandas has
  it. (pandas raises \<^verbatim>\<open>KeyError\<close> for a subset column the frame lacks; \<^verbatim>\<open>main\<close> calls it
  on frames that have both columns, see \<open>all_data_main_invariant\<close>.)
\<close>

fun drop_duplicate_rows :: "string list \<Rightarrow> cell option list list \<Rightarrow> row list \<Rightarrow> row list" where
  "drop_duplicate_rows subs seen [] = []"
| "drop_duplicate_rows subs seen (r # rs) =
     (if map r subs \<in> set seen then drop_duplicate_rows subs seen rs
      else r # drop_duplicate_rows subs (map r subs # seen) rs)"

definition drop_duplicates :: "string list \<Rightarrow> frame \<Rightarrow> frame" where
  "drop_duplicates subs df = df\<lparr>rows := drop_duplicate_rows subs [] (rows df)\<rparr>"

text \<open>\<^verbatim>\<open>os.path.join\<close> of a directory and a relative file name.\<close>

definition path_join :: "string \<Rightarrow> string \<Rightarrow> string" where
  "path_join a b = (if a = [] \<or> last a = CHR ''/'' then a @ b else a @ ''/'' @ b)"

text \<open>
  What a run of \<^verbatim>\<open>main\<close> leaves: the value it returns, the local variables
  \<^verbatim>\<open>use_historical\<close>, \<^verbatim>\<open>all_data\<close>, \<^verbatim>\<open>final_df\<close> and \<^verbatim>\<open>report\<close> as they are when it
  returns (the last two do not exist when it returns early), and the world.
\<close>

record 'fs run =
  returned :: bool
  use_historical :: bool
  all_data :: "frame list"
  final_df :: "frame option"
  final_report :: "report option"
  end_world :: "'fs world"

definition fallback_pass ::
  "('g, 'fs) env \<Rightarrow> frame list \<Rightarrow> 'fs world \<Rightarrow> bool \<times> frame list \<times> 'fs world" where
  "fallback_pass E historical w =
     (let total_historical = (if historical \<noteq> [] then sum_list (map len historical) else 0)
      in if total_historical < 50 then
           (case region_loop E LOCATIONS build_tags_dict False [] (configure_osmnx_current w) of
              (current, w') \<Rightarrow> (False, current, w'))
         else (True, historical, w))"

definition finish :: "('g, 'fs) env \<Rightarrow> bool \<Rightarrow> frame list \<Rightarrow> 'fs world \<Rightarrow> 'fs run" where
  "finish E use_hist data w =
     (if data = [] then
        \<lparr>returned = False, use_historical = use_hist, all_data = data, final_df = None,
         final_report = None, end_world = w\<rparr>
      else
        (let merged = concat_frames data;
             final = drop_duplicates [''lat'', ''lon''] merged;
             (success, rep) = verify_data E (Some final);
             output_csv = path_join (getcwd E) OUTPUT_FILE;
             output_geojson = path_join (getcwd E) OUTPUT_GEOJSON;
             (file_saved, files) = save_output E final output_csv (Some output_geojson) (fs w);
             rep = rep\<lparr>check_file := file_saved\<rparr>;
             rep = (if file_saved then rep
                    else rep\<lparr>errors := errors rep @ [File_Creation_Failed]\<rparr>);
             overall_success = (success \<and> file_saved)
         in \<lparr>returned = overall_success, use_historical = use_hist, all_data = data,
             final_df = Some final, final_report = Some rep, end_world = w\<lparr>fs := files\<rparr>\<rparr>))"

text \<open>
  \<^verbatim>\<open>main\<close>: the historical pass, the fallback decision (\<open>fallback_pass\<close>, lines 345 to
  366) and everything from the merge on (\<open>finish\<close>, lines 368 to 445).
\<close>

definition main :: "('g, 'fs) env \<Rightarrow> 'fs world \<Rightarrow> 'fs run" where
  "main E w0 =
     (case region_loop E LOCATIONS build_tags_dict True [] (configure_osmnx_historical w0) of
        (historical, w1) \<Rightarrow>
          (case fallback_pass E historical w1 of
             (use_hist, data, w2) \<Rightarrow> finish E use_hist data w2))"

section \<open>Derived notions and example data\<close>

text \<open>
  What one region adds to \<^verbatim>\<open>all_data\<close> under given client settings: the body of the
  loop of \<open>region_loop\<close> for one location, as a list of no or one frame. It serves to
  state facts about the loop; \<open>region_loop_eq\<close> ties it to the loop.
\<close>

definition region_frames ::
  "('g, 'fs) env \<Rightarrow> ox_settings \<Rightarrow> (string \<times> string list) list \<Rightarrow> string \<Rightarrow> frame list" where
  "region_frames E s tags location =
     (case features_from_place E s location tags of
        Raises e \<Rightarrow> []
      | Returns None \<Rightarrow> []
      | Returns (Some gdf) \<Rightarrow>
          if length (features gdf) = 0 then []
          else (case clean_and_filter (convert_to_centroids E (Some gdf))
                       (takeWhile (\<lambda>c. c \<noteq> CHR '','') location) of
                  None \<Rightarrow> []
                | Some d \<Rightarrow> if len d > 0 then [d] else []))"

text \<open>The columns \<^verbatim>\<open>clean_and_filter\<close> selects from the columns a frame has after \<^verbatim>\<open>reset_index\<close>.\<close>

definition available_columns :: "string list \<Rightarrow> string list" where
  "available_columns cols =
     (let available_cols = filter (\<lambda>col. col \<in> set cols) KEEP_COLUMNS;
          available_cols = (if ''osmid'' \<in> set cols then ''osmid'' # available_cols else available_cols)
      in (if ''element_type'' \<in> set cols then ''element_type'' # available_cols else available_cols))"

text \<open>Frames of 100 and of 101 rows.\<close>

definition rows_100 :: frame where
  "rows_100 = \<lparr>columns = [''lat'', ''lon''], rows = replicate 100 Map.empty\<rparr>"

definition rows_101 :: frame where
  "rows_101 = \<lparr>columns = [''lat'', ''lon''], rows = replicate 101 Map.empty\<rparr>"

text \<open>A frame with no category column at all, and one with a \<^verbatim>\<open>power\<close> column and an untagged row.\<close>

definition untagged_frame :: "unit geoframe" where
  "untagged_frame =
     \<lparr>crs = None, index_names = [], gcolumns = [''name'', ''lon'', ''lat''],
      features = [((), [''name'' \<mapsto> Str ''Depot'', ''lon'' \<mapsto> Num (-95.37), ''lat'' \<mapsto> Num 29.76])]\<rparr>"

definition tagged_frame :: "unit geoframe" where
  "tagged_frame =
     \<lparr>crs = None, index_names = [''element_type'', ''osmid''],
      gcolumns = [''name'', ''power'', ''lon'', ''lat''],
      features =
        [((), [''element_type'' \<mapsto> Str ''node'', ''osmid'' \<mapsto> Num 1, ''name'' \<mapsto> Str ''Plant'',
               ''power'' \<mapsto> Str ''plant'', ''lon'' \<mapsto> Num (-95.37), ''lat'' \<mapsto> Num 29.76]),
         ((), [''element_type'' \<mapsto> Str ''node'', ''osmid'' \<mapsto> Num 2, ''name'' \<mapsto> Str ''Depot'',
               ''lon'' \<mapsto> Num (-95.40), ''lat'' \<mapsto> Num 29.70])]\<rparr>"

text \<open>
  The arithmetic mean of the specification, taken exactly: the sum of the values of a column
  over their number, in the real numbers; \<open>None\<close> when the column has no value.
\<close>

definition number :: "cell option \<Rightarrow> real option" where
  "number c = (case c of Some (Num x) \<Rightarrow> Some x | _ \<Rightarrow> None)"


text \<open>
  A float64 arithmetic for the examples (IEEE 754 binary64, rounding to nearest, ties to
  even): a real number is rounded to the nearest multiple of the unit in its last place,
  which is \<open>2\<close> to the power \<open>e - 52\<close> for a number of binary exponent \<open>e\<close> (not below
  \<open>-1022\<close>); a result of magnitude \<open>2\<close> to the \<open>1024\<close> or more is an infinity.
\<close>

definition round_half_even :: "real \<Rightarrow> int" where
  "round_half_even x =
     (let n = \<lfloor>x\<rfloor>; r = x - of_int n
      in if r < 1 / 2 then n else if 1 / 2 < r then n + 1 else if even n then n else n + 1)"

definition float64_round :: "real \<Rightarrow> float64" where
  "float64_round x =
     (if x = 0 then Finite 0
      else
        (let e = max \<lfloor>log 2 \<bar>x\<bar>\<rfloor> (- 1022);
             ulp = 2 powr of_int (e - 52);
             y = of_int (round_half_even (x / ulp)) * ulp
         in if 2 powr 1024 \<le> \<bar>y\<bar> then (if 0 < x then PlusInfinity else MinusInfinity)
            else Finite y))"

fun float64_add :: "float64 \<Rightarrow> float64 \<Rightarrow> float64" where
  "float64_add (Finite x) (Finite y) = float64_round (x + y)"
| "float64_add NaN y = NaN"
| "float64_add x NaN = NaN"
| "float64_add PlusInfinity MinusInfinity = NaN"
| "float64_add MinusInfinity PlusInfinity = NaN"
| "float64_add PlusInfinity y = PlusInfinity"
| "float64_add x PlusInfinity = PlusInfinity"
| "float64_add MinusInfinity y = MinusInfinity"
| "float64_add x MinusInfinity = MinusInfinity"

text \<open>
  The mean of a column as pandas computes it on the short columns of the examples:
  missing values are skipped, the values are added in float64 one after the other, and
  the sum is divided in float64 by their number; \<^verbatim>\<open>NaN\<close> when there is no value. (On a
  column of two values every order of summation gives this: one addition, one division.)
\<close>

definition float64_mean :: "cell option list \<Rightarrow> float64" where
  "float64_mean cells =
     (let vs = List.map_filter number cells
      in if vs = [] then NaN
         else (case foldl float64_add (Finite 0) (map Finite vs) of
                 Finite acc \<Rightarrow> float64_round (acc / real (length vs))
               | other \<Rightarrow> other))"

text \<open>
  A geometry library for the examples: a geometry is its centroid's coordinate pair
  \<open>(x, y)\<close>, or \<open>None\<close> for an empty geometry, whose centroid has no coordinates.
\<close>

definition empty_geometry_frame :: "(real \<times> real) option geoframe" where
  "empty_geometry_frame =
     \<lparr>crs = None, index_names = [''element_type'', ''osmid''], gcolumns = [''power''],
      features = [(None, [''element_type'' \<mapsto> Str ''way'', ''osmid'' \<mapsto> Num 7, ''power'' \<mapsto> Str ''plant'']),
                  (Some (-95.37, 29.76),
                   [''element_type'' \<mapsto> Str ''node'', ''osmid'' \<mapsto> Num 8, ''power'' \<mapsto> Str ''substation''])]\<rparr>"

definition silent_client ::
  "ox_settings \<Rightarrow> string \<Rightarrow> (string \<times> string list) list \<Rightarrow> (real \<times> real) option client_result" where
  "silent_client s location tags = Returns None"

definition writing_env :: "((real \<times> real) option, string list) env" where
  "writing_env =
     \<lparr>features_from_place = silent_client,
      centroid = (\<lambda>g. g),
      coord_x = map_option fst,
      coord_y = map_option snd,
      series_mean = float64_mean,
      to_csv = (\<lambda>df p files. (p # files, None)),
      to_file = (\<lambda>df p files. (p # files, None)),
      path_exists = (\<lambda>files p. p \<in> set files),
      getcwd = ''/data''\<rparr>"

text \<open>
  An environment whose GeoJSON writer raises, and small datasets around Houston and New
  York. Their coordinates are binary fractions, so that the float64 sums and means are
  exact: the means are (29.765625, -95.3671875) and (40.703125, -74.0078125).
\<close>

definition geojson_failing_env :: "((real \<times> real) option, string list) env" where
  "geojson_failing_env = writing_env\<lparr>to_file := (\<lambda>df p files. (files, Some ''disk full''))\<rparr>"

definition houston_points :: frame where
  "houston_points =
     \<lparr>columns = [''power'', ''lat'', ''lon'', ''city_source''],
      rows = [[''power'' \<mapsto> Str ''plant'', ''lat'' \<mapsto> Num 29.75, ''lon'' \<mapsto> Num (-95.375),
               ''city_source'' \<mapsto> Str ''Houston''],
              [''power'' \<mapsto> Str ''substation'', ''lat'' \<mapsto> Num 29.78125, ''lon'' \<mapsto> Num (-95.359375),
               ''city_source'' \<mapsto> Str ''Houston'']]\<rparr>"



text \<open>
  The cleaned record sets of two regions: the first record of the second region has the
  coordinates of the second record of the first.
\<close>

definition houston_records :: frame where
  "houston_records =
     \<lparr>columns = [''power'', ''lat'', ''lon'', ''city_source''],
      rows = [[''power'' \<mapsto> Str ''plant'', ''lat'' \<mapsto> Num 29.75, ''lon'' \<mapsto> Num (-95.375),
               ''city_source'' \<mapsto> Str ''Houston''],
              [''power'' \<mapsto> Str ''generator'', ''lat'' \<mapsto> Num 31.5, ''lon'' \<mapsto> Num (-96.25),
               ''city_source'' \<mapsto> Str ''Houston'']]\<rparr>"

definition dallas_records :: frame where
  "dallas_records =
     \<lparr>columns = [''amenity'', ''lat'', ''lon'', ''city_source''],
      rows = [[''amenity'' \<mapsto> Str ''hospital'', ''lat'' \<mapsto> Num 31.5, ''lon'' \<mapsto> Num (-96.25),
               ''city_source'' \<mapsto> Str ''Dallas''],
              [''amenity'' \<mapsto> Str ''police'', ''lat'' \<mapsto> Num 32.75, ''lon'' \<mapsto> Num (-96.75),
               ''city_source'' \<mapsto> Str ''Dallas'']]\<rparr>"

text \<open>
  Query clients for the examples. With the first, Houston always fails and Dallas has
  one feature in the historical snapshot and two now. With the second, Houston has 30
  features and Dallas 25, whatever the settings. With the third, Houston always fails
  and Dallas has 40 features in the historical snapshot and fails now. With the fourth,
  Houston always fails and Dallas always has two features at the same place.
\<close>

definition dallas_historical :: "(real \<times> real) option geoframe" where
  "dallas_historical =
     \<lparr>crs = None, index_names = [''element_type'', ''osmid''], gcolumns = [''power'', ''amenity''],
      features = [(Some (-96.75, 32.75),
                   [''element_type'' \<mapsto> Str ''node'', ''osmid'' \<mapsto> Num 1, ''power'' \<mapsto> Str ''plant''])]\<rparr>"

definition dallas_current :: "(real \<times> real) option geoframe" where
  "dallas_current =
     \<lparr>crs = None, index_names = [''element_type'', ''osmid''], gcolumns = [''power'', ''amenity''],
      features = [(Some (-96.75, 32.75),
                   [''element_type'' \<mapsto> Str ''node'', ''osmid'' \<mapsto> Num 1, ''power'' \<mapsto> Str ''plant'']),
                  (Some (-96.6875, 32.875),
                   [''element_type'' \<mapsto> Str ''node'', ''osmid'' \<mapsto> Num 2, ''amenity'' \<mapsto> Str ''hospital''])]\<rparr>"

definition failing_houston_client ::
  "ox_settings \<Rightarrow> string \<Rightarrow> (string \<times> string list) list \<Rightarrow> (real \<times> real) option client_result" where
  "failing_houston_client s location tags =
     (if location = ''Houston, Texas, USA'' then Raises ''gateway timeout''
      else if overpass_settings s = ''[out:json][timeout:180]'' then Returns (Some dallas_current)
      else Returns (Some dallas_historical))"

definition many_features :: "nat \<Rightarrow> real \<times> real \<Rightarrow> (real \<times> real) option geoframe" where
  "many_features n xy =
     \<lparr>crs = None, index_names = [''element_type'', ''osmid''], gcolumns = [''power''],
      features = replicate n (Some xy, [''element_type'' \<mapsto> Str ''node'', ''power'' \<mapsto> Str ''substation''])\<rparr>"

definition rich_client ::
  "ox_settings \<Rightarrow> string \<Rightarrow> (string \<times> string list) list \<Rightarrow> (real \<times> real) option client_result" where
  "rich_client s location tags =
     (if location = ''Houston, Texas, USA'' then Returns (Some (many_features 30 (-95.375, 29.75)))
      else Returns (Some (many_features 25 (-96.75, 32.75))))"




definition failing_houston_env :: "((real \<times> real) option, string list) env" where
  "failing_houston_env = writing_env\<lparr>features_from_place := failing_houston_client\<rparr>"

definition rich_env :: "((real \<times> real) option, string list) env" where
  "rich_env = writing_env\<lparr>features_from_place := rich_client\<rparr>"



definition start_world :: "string list world" where
  "start_world =
     \<lparr>ox = \<lparr>overpass_settings = ''[out:json][timeout:{timeout}]{maxsize}'', timeout = 180,
             log_console = False\<rparr>,
      queries = [], fs = []\<rparr>"

section \<open>Facts about the verifier\<close>

lemma verify_data_Some:
  "len d \<noteq> 0 \<Longrightarrow>
   snd (verify_data E (Some d)) =
     location_sanity_check E d (coordinate_check d (volume_check d (initial_report\<lparr>total_records := len d\<rparr>)))"
  by (simp add: verify_data_def Let_def)

lemma check_volume_coordinate_check [simp]:
  "check_volume (coordinate_check d rep) = check_volume rep"
  by (simp add: coordinate_check_def Let_def)

lemma check_volume_location_sanity_check [simp]:
  "check_volume (location_sanity_check E d rep) = check_volume rep"
  by (simp add: location_sanity_check_def Let_def)

lemma check_volume_volume_check:
  "check_volume (volume_check d rep) = (100 < len d \<or> check_volume rep)"
  by (simp add: volume_check_def)

section \<open>Facts about the region loop\<close>

lemma region_loop_Cons:
  "region_loop E (location # locations) tags uh acc w =
     region_loop E locations tags uh (acc @ region_frames E (ox w) tags location)
       (w\<lparr>queries := queries w @ [(ox w, location)]\<rparr>)"
  by (simp add: fetch_infrastructure_data_def region_frames_def Let_def
           split: client_result.split option.split)

lemma region_loop_eq:
  "region_loop E locations tags uh acc w =
     (acc @ concat (map (region_frames E (ox w) tags) locations),
      w\<lparr>queries := queries w @ map (Pair (ox w)) locations\<rparr>)"
proof (induction locations arbitrary: acc w)
  case Nil
  show ?case by simp
next
  case (Cons location locations)
  show ?case
    unfolding region_loop_Cons Cons.IH by simp
qed

section \<open>Facts about merging and deduplication\<close>

lemma drop_duplicate_rows_seen_set:
  "set seen = set seen' \<Longrightarrow> drop_duplicate_rows subs seen rs = drop_duplicate_rows subs seen' rs"
proof (induction rs arbitrary: seen seen')
  case Nil
  show ?case by simp
next
  case (Cons r rs)
  from Cons.prems have "set (map r subs # seen) = set (map r subs # seen')" by simp
  from Cons.IH [OF this] Cons.IH [OF Cons.prems] Cons.prems show ?case by simp
qed

lemma drop_duplicate_rows_all_seen:
  "(\<lambda>r. map r subs) ` set rs \<subseteq> set seen \<Longrightarrow> drop_duplicate_rows subs seen rs = []"
  by (induction rs) auto

lemma drop_duplicate_rows_append:
  "drop_duplicate_rows subs seen (xs @ ys) =
     drop_duplicate_rows subs seen xs @ drop_duplicate_rows subs (map (\<lambda>r. map r subs) xs @ seen) ys"
proof (induction xs arbitrary: seen)
  case Nil
  show ?case by simp
next
  case (Cons x xs)
  show ?case
  proof (cases "map x subs \<in> set seen")
    case True
    then have "set (map (\<lambda>r. map r subs) (x # xs) @ seen) = set (map (\<lambda>r. map r subs) xs @ seen)"
      by auto
    from drop_duplicate_rows_seen_set [OF this] True Cons.IH [of seen] show ?thesis by simp
  next
    case False
    have "set (map (\<lambda>r. map r subs) (x # xs) @ seen) = set (map (\<lambda>r. map r subs) xs @ map x subs # seen)"
      by auto
    from drop_duplicate_rows_seen_set [OF this] False Cons.IH [of "map x subs # seen"]
    show ?thesis by simp
  qed
qed

lemma drop_duplicate_rows_doubled:
  "drop_duplicate_rows subs [] (xs @ xs) = drop_duplicate_rows subs [] xs"
  by (simp add: drop_duplicate_rows_append [of subs "[]" xs xs] drop_duplicate_rows_all_seen)

lemma find_drop_duplicate_rows:
  "find (\<lambda>r. map r subs = k) (drop_duplicate_rows subs seen rs) =
     (if k \<in> set seen then None else find (\<lambda>r. map r subs = k) rs)"
proof (induction rs arbitrary: seen)
  case Nil
  show ?case by simp
next
  case (Cons r rs)
  show ?case by (auto simp: Cons.IH)
qed

lemma keys_drop_duplicate_rows:
  "set (map (\<lambda>r. map r subs) (drop_duplicate_rows subs seen rs)) =
     set (map (\<lambda>r. map r subs) rs) - set seen"
  by (induction rs arbitrary: seen) auto

lemma distinct_drop_duplicate_rows:
  "distinct (map (\<lambda>r. map r subs) (drop_duplicate_rows subs seen rs))"
  by (induction rs arbitrary: seen) (auto simp: keys_drop_duplicate_rows [simplified])

lemma drop_duplicate_rows_nonempty:
  "rs \<noteq> [] \<Longrightarrow> drop_duplicate_rows subs [] rs \<noteq> []"
  by (cases rs) auto

lemma columns_foldl_add_column:
  "set (foldl (\<lambda>cols c. add_column c cols) acc cs) = set acc \<union> set cs"
  by (induction cs arbitrary: acc) (auto simp: add_column_def)

lemma foldl_add_column_known:
  "set cs \<subseteq> set acc \<Longrightarrow> foldl (\<lambda>cols c. add_column c cols) acc cs = acc"
  by (induction cs arbitrary: acc) (auto simp: add_column_def)

lemma concat_frames_doubled_columns:
  "columns (concat_frames (X @ X)) = columns (concat_frames X)"
  by (simp add: concat_frames_def foldl_add_column_known columns_foldl_add_column)

section \<open>Facts about the record cleaner\<close>

lemma tag_columns_KEEP: "c \<in> set tag_columns \<Longrightarrow> c \<in> set KEEP_COLUMNS"
  by (auto simp: tag_columns_def KEEP_COLUMNS_def)

lemma tag_not_city_source: "c \<in> set tag_columns \<Longrightarrow> c \<noteq> ''city_source''"
  by (auto simp: tag_columns_def)

lemma available_columns_keep:
  "c \<in> set KEEP_COLUMNS \<Longrightarrow> c \<in> set cols \<Longrightarrow> c \<in> set (available_columns cols)"
  by (simp add: available_columns_def Let_def)

lemma clean_and_filter_Some:
  assumes "features g \<noteq> []"
  shows "clean_and_filter (Some g) city =
     Some \<lparr>columns = available_columns (index_names g @ add_column ''city_source'' (gcolumns g)),
           rows = map (\<lambda>r. r |` set (available_columns (index_names g @ add_column ''city_source'' (gcolumns g))))
                    (let rows1 = map (\<lambda>(geom, r). r(''city_source'' \<mapsto> Str city)) (features g);
                         existing = filter (\<lambda>col. col \<in> set (index_names g @ add_column ''city_source'' (gcolumns g))) tag_columns
                     in if existing \<noteq> [] then filter (\<lambda>r. list_ex (\<lambda>col. r col \<noteq> None) existing) rows1 else rows1)\<rparr>"
  using assms by (simp add: clean_and_filter_def available_columns_def Let_def)

lemma tag_in_reset_columns:
  assumes "c \<in> set tag_columns"
  shows "c \<in> set (index_names g @ add_column ''city_source'' (gcolumns g)) \<longleftrightarrow> c \<in> set (index_names g @ gcolumns g)"
proof -
  from assms have "c \<noteq> ''city_source''" by (rule tag_not_city_source)
  then show ?thesis by (simp add: add_column_def)
qed

lemma set_existing_tag_cols:
  "set (filter (\<lambda>col. col \<in> set (index_names g @ add_column ''city_source'' (gcolumns g))) tag_columns)
     = {c \<in> set tag_columns. c \<in> set (index_names g @ gcolumns g)}"
proof -
  have "filter (\<lambda>col. col \<in> set (index_names g @ add_column ''city_source'' (gcolumns g))) tag_columns
        = filter (\<lambda>col. col \<in> set (index_names g @ gcolumns g)) tag_columns"
    by (rule filter_cong [OF refl]) (rule tag_in_reset_columns)
  then show ?thesis by simp
qed

lemma existing_tag_cols_empty:
  "filter (\<lambda>col. col \<in> set (index_names g @ add_column ''city_source'' (gcolumns g))) tag_columns = []
     \<longleftrightarrow> \<not> list_ex (\<lambda>col. col \<in> set (index_names g @ gcolumns g)) tag_columns"
proof -
  have "filter (\<lambda>col. col \<in> set (index_names g @ add_column ''city_source'' (gcolumns g))) tag_columns = []
        \<longleftrightarrow> set (filter (\<lambda>col. col \<in> set (index_names g @ add_column ''city_source'' (gcolumns g))) tag_columns) = {}"
    by (simp only: set_empty)
  also have "\<dots> \<longleftrightarrow> \<not> list_ex (\<lambda>col. col \<in> set (index_names g @ gcolumns g)) tag_columns"
    unfolding set_existing_tag_cols list_ex_iff by blast
  finally show ?thesis .
qed

lemma verify_data_report:
  assumes "len d \<noteq> 0" and "''lat'' \<in> set (columns d)" and "''lon'' \<in> set (columns d)"
  shows "verify_data E (Some d) =
     (100 < len d \<and> (0 < notna_sum ''lat'' d \<and> 0 < notna_sum ''lon'' d)
        \<and> (within_bounds HOUSTON_DALLAS_LAT_BOUNDS (mean E ''lat'' d)
           \<and> within_bounds HOUSTON_DALLAS_LON_BOUNDS (mean E ''lon'' d)),
      \<lparr>check_volume = 100 < len d,
       check_coordinates = (0 < notna_sum ''lat'' d \<and> 0 < notna_sum ''lon'' d),
       check_location_sanity = (within_bounds HOUSTON_DALLAS_LAT_BOUNDS (mean E ''lat'' d)
                                 \<and> within_bounds HOUSTON_DALLAS_LON_BOUNDS (mean E ''lon'' d)),
       check_file = False,
       total_records = len d,
       errors = (if 100 < len d then [] else [Volume_Failed (len d)])
              @ (if 0 < notna_sum ''lat'' d \<and> 0 < notna_sum ''lon'' d then [] else [No_Valid_Coordinates])
              @ (if within_bounds HOUSTON_DALLAS_LAT_BOUNDS (mean E ''lat'' d)
                    \<and> within_bounds HOUSTON_DALLAS_LON_BOUNDS (mean E ''lon'' d)
                 then [] else [Mean_Outside (mean E ''lat'' d) (mean E ''lon'' d)])\<rparr>)"
  using assms
  by (simp add: verify_data_def volume_check_def coordinate_check_def location_sanity_check_def
        initial_report_def Let_def)




lemma rows_drop_duplicates:
  "rows (drop_duplicates subs df) = drop_duplicate_rows subs [] (rows df)"
  by (simp add: drop_duplicates_def)

lemma columns_drop_duplicates:
  "columns (drop_duplicates subs df) = columns df"
  by (simp add: drop_duplicates_def)

lemma convert_to_centroids_Some:
  assumes "features g \<noteq> []"
  shows "\<exists>g'. convert_to_centroids E (Some g) = Some g' \<and> features g' \<noteq> []
           \<and> ''lat'' \<in> set (gcolumns g') \<and> ''lon'' \<in> set (gcolumns g')"
  using assms by (simp add: convert_to_centroids_def add_column_def)

lemma lat_lon_keep: "''lat'' \<in> set KEEP_COLUMNS" "''lon'' \<in> set KEEP_COLUMNS"
  by (simp_all add: KEEP_COLUMNS_def)

lemma clean_and_filter_columns:
  assumes "clean_and_filter (Some g) city = Some d" and "c \<in> set KEEP_COLUMNS" and "c \<in> set (gcolumns g)"
  shows "c \<in> set (columns d)"
proof -
  from assms(1) have nonempty: "features g \<noteq> []"
    by (auto simp: clean_and_filter_def split: if_splits)
  from assms(3) have "c \<in> set (index_names g @ add_column ''city_source'' (gcolumns g))"
    by (simp add: add_column_def)
  with assms(2) have "c \<in> set (available_columns (index_names g @ add_column ''city_source'' (gcolumns g)))"
    by (rule available_columns_keep)
  moreover from clean_and_filter_Some [OF nonempty, of city] assms(1)
  have "columns d = available_columns (index_names g @ add_column ''city_source'' (gcolumns g))"
    by (simp del: set_append)
  ultimately show ?thesis by (simp only:)
qed

lemma region_frames_invariant:
  assumes "d \<in> set (region_frames E s tags location)"
  shows "0 < len d \<and> ''lat'' \<in> set (columns d) \<and> ''lon'' \<in> set (columns d)"
proof -
  from assms obtain gdf where gdf: "features gdf \<noteq> []"
    and clean: "clean_and_filter (convert_to_centroids E (Some gdf))
                  (takeWhile (\<lambda>c. c \<noteq> CHR '','') location) = Some d"
    and len: "0 < len d"
    by (auto simp: region_frames_def split: client_result.splits option.splits if_splits)
  from convert_to_centroids_Some [OF gdf, of E] obtain g' where
    g': "convert_to_centroids E (Some gdf) = Some g'"
        "''lat'' \<in> set (gcolumns g')" "''lon'' \<in> set (gcolumns g')"
    by blast
  from clean g'(1) have c: "clean_and_filter (Some g') (takeWhile (\<lambda>c. c \<noteq> CHR '','') location) = Some d"
    by simp
  from clean_and_filter_columns [OF c lat_lon_keep(1) g'(2)]
       clean_and_filter_columns [OF c lat_lon_keep(2) g'(3)] len
  show ?thesis by simp
qed

lemma region_loop_invariant:
  assumes "d \<in> set (fst (region_loop E locations tags uh [] w))"
  shows "0 < len d \<and> ''lat'' \<in> set (columns d) \<and> ''lon'' \<in> set (columns d)"
  using assms by (auto simp: region_loop_eq dest: region_frames_invariant)

lemma columns_concat_frames:
  "set (columns (concat_frames dfs)) = (\<Union>d\<in>set dfs. set (columns d))"
  by (simp add: concat_frames_def columns_foldl_add_column)

lemma rows_concat_frames: "rows (concat_frames dfs) = concat (map rows dfs)"
  by (simp add: concat_frames_def)

lemma merged_invariant:
  assumes "data \<noteq> []"
    and "\<forall>d\<in>set data. 0 < len d \<and> ''lat'' \<in> set (columns d) \<and> ''lon'' \<in> set (columns d)"
  shows "len (drop_duplicates [''lat'', ''lon''] (concat_frames data)) \<noteq> 0
       \<and> ''lat'' \<in> set (columns (drop_duplicates [''lat'', ''lon''] (concat_frames data)))
       \<and> ''lon'' \<in> set (columns (drop_duplicates [''lat'', ''lon''] (concat_frames data)))"
proof -
  from assms obtain d where d: "d \<in> set data" "0 < len d"
    "''lat'' \<in> set (columns d)" "''lon'' \<in> set (columns d)"
    by (cases data) auto
  from d(1,2) have "concat (map rows data) \<noteq> []"
    by (auto simp: len_def)
  then have "drop_duplicate_rows [''lat'', ''lon''] [] (rows (concat_frames data)) \<noteq> []"
    unfolding rows_concat_frames by (rule drop_duplicate_rows_nonempty)
  then have "len (drop_duplicates [''lat'', ''lon''] (concat_frames data)) \<noteq> 0"
    by (simp add: len_def rows_drop_duplicates)
  moreover from d(1,3,4) have "''lat'' \<in> set (columns (concat_frames data))"
    "''lon'' \<in> set (columns (concat_frames data))"
    unfolding columns_concat_frames by blast+
  ultimately show ?thesis by (simp add: columns_drop_duplicates)
qed

section \<open>Facts about the main function\<close>

lemma finish_fields:
  "use_historical (finish E uh data w) = uh"
  "all_data (finish E uh data w) = data"
  "final_df (finish E uh data w) =
     (if data = [] then None else Some (drop_duplicates [''lat'', ''lon''] (concat_frames data)))"
  "ox (end_world (finish E uh data w)) = ox w"
  "queries (end_world (finish E uh data w)) = queries w"
  by (simp_all add: finish_def Let_def split: prod.split)

lemma finish_files:
  "data \<noteq> [] \<Longrightarrow>
   fs (end_world (finish E uh data w)) =
     snd (save_output E (drop_duplicates [''lat'', ''lon''] (concat_frames data))
            (path_join (getcwd E) OUTPUT_FILE) (Some (path_join (getcwd E) OUTPUT_GEOJSON)) (fs w))"
  by (simp add: finish_def Let_def split: prod.split)

lemma finish_report:
  "data \<noteq> [] \<Longrightarrow>
   final_report (finish E uh data w) =
     Some (let final = drop_duplicates [''lat'', ''lon''] (concat_frames data);
               rep = snd (verify_data E (Some final));
               file_saved = fst (save_output E final (path_join (getcwd E) OUTPUT_FILE)
                                   (Some (path_join (getcwd E) OUTPUT_GEOJSON)) (fs w))
           in rep\<lparr>check_file := file_saved,
                  errors := errors rep @ (if file_saved then [] else [File_Creation_Failed])\<rparr>)"
  by (simp add: finish_def Let_def split: prod.split)

lemma finish_returned:
  "data \<noteq> [] \<Longrightarrow>
   returned (finish E uh data w) =
     (let final = drop_duplicates [''lat'', ''lon''] (concat_frames data)
      in fst (verify_data E (Some final))
         \<and> fst (save_output E final (path_join (getcwd E) OUTPUT_FILE)
                  (Some (path_join (getcwd E) OUTPUT_GEOJSON)) (fs w)))"
  by (simp add: finish_def Let_def split: prod.split)

lemma finish_empty:
  "final_report (finish E uh [] w) = None" "returned (finish E uh [] w) = False"
  "fs (end_world (finish E uh [] w)) = fs w"
  by (simp_all add: finish_def)

lemma main_eq:
  "main E w0 =
     (let w1 = configure_osmnx_historical w0;
          historical = fst (region_loop E LOCATIONS build_tags_dict True [] w1);
          w2 = snd (region_loop E LOCATIONS build_tags_dict True [] w1);
          w3 = configure_osmnx_current w2
      in if sum_list (map len historical) < 50
         then finish E False (fst (region_loop E LOCATIONS build_tags_dict False [] w3))
                (snd (region_loop E LOCATIONS build_tags_dict False [] w3))
         else finish E True historical w2)"
  by (simp add: main_def fallback_pass_def Let_def split: prod.split)

lemma fs_region_loop: "fs (snd (region_loop E locations tags uh acc w)) = fs w"
  by (simp add: region_loop_eq)

lemma fs_configure: "fs (configure_osmnx_historical w) = fs w" "fs (configure_osmnx_current w) = fs w"
  by (simp_all add: configure_osmnx_historical_def configure_osmnx_current_def)

lemma main_cases:
  obtains uh locs w where "main E w0 = finish E uh (fst (region_loop E locs build_tags_dict uh [] w)) (snd (region_loop E locs build_tags_dict uh [] w))"
    and "fs w = fs w0"
  unfolding main_eq Let_def
  by (cases "sum_list (map len (fst (region_loop E LOCATIONS build_tags_dict True [] (configure_osmnx_historical w0)))) < 50")
     (simp_all add: fs_region_loop fs_configure)

section \<open>Facts about the float64 arithmetic of the examples\<close>

lemma round_half_even_of_int [simp]: "round_half_even (of_int m) = m"
  by (simp add: round_half_even_def)

lemma round_half_even_bounds: "\<bar>of_int (round_half_even x) - x\<bar> \<le> 1 / 2"
  unfolding round_half_even_def Let_def by (auto simp: abs_if; linarith)

lemma float64_exponent:
  assumes "2 ^ k \<le> \<bar>x\<bar>" and "\<bar>x\<bar> < 2 ^ Suc k"
  shows "\<lfloor>log 2 \<bar>x\<bar>\<rfloor> = int k"
proof -
  from assms(1) have pos: "0 < \<bar>x\<bar>"
    by (smt (verit) zero_less_power)
  have "2 powr real_of_int (int k) \<le> \<bar>x\<bar>" "\<bar>x\<bar> < 2 powr (real_of_int (int k) + 1)"
    using assms by (simp_all add: powr_realpow powr_add)
  with pos show ?thesis
    by (subst floor_log_eq_powr_iff) (simp_all add: powr_add)
qed

lemma float64_round_normal:
  assumes "2 ^ k \<le> \<bar>x\<bar>" and "\<bar>x\<bar> < 2 ^ Suc k" and "k \<le> 52"
  shows "float64_round x = Finite (of_int (round_half_even (x * 2 ^ (52 - k))) / 2 ^ (52 - k))"
proof -
  have "(0::real) < 2 ^ k" by simp
  with assms(1) have "0 < \<bar>x\<bar>" by linarith
  then have nz: "x \<noteq> 0" by simp
  have e: "max \<lfloor>log 2 \<bar>x\<bar>\<rfloor> (- 1022) = int k"
    using float64_exponent [OF assms(1,2)] by simp
  have "real_of_int (int k - 52) = - real (52 - k)" using assms(3) by simp
  then have "2 powr of_int (int k - 52) = inverse (2 powr real (52 - k))"
    by (simp only: powr_minus)
  then have ulp: "2 powr of_int (int k - 52) = 1 / (2::real) ^ (52 - k)"
    by (simp add: powr_realpow inverse_eq_divide)
  define z where "z = x * 2 ^ (52 - k)"
  define m where "m = round_half_even z"
  have "\<bar>real_of_int m - z\<bar> \<le> 1 / 2"
    unfolding m_def by (rule round_half_even_bounds)
  moreover have "\<bar>real_of_int m\<bar> - \<bar>z\<bar> \<le> \<bar>real_of_int m - z\<bar>"
    by (rule abs_triangle_ineq2)
  ultimately have 1: "\<bar>real_of_int m\<bar> \<le> \<bar>z\<bar> + 1 / 2" by linarith
  have "\<bar>z\<bar> = \<bar>x\<bar> * 2 ^ (52 - k)"
    unfolding z_def by (simp add: abs_mult)
  also have "\<dots> < 2 ^ Suc k * 2 ^ (52 - k)"
    using assms(2) by (rule mult_strict_right_mono) simp
  also have "\<dots> = 2 ^ (Suc k + (52 - k))"
    by (simp only: power_add)
  also have "Suc k + (52 - k) = 53"
    using assms(3) by simp
  finally have 2: "\<bar>z\<bar> < 2 ^ 53" .
  have "(1::real) \<le> 2 ^ (52 - k)" by simp
  then have "\<bar>real_of_int m\<bar> * 1 \<le> \<bar>real_of_int m\<bar> * 2 ^ (52 - k)"
    by (intro mult_left_mono) simp_all
  then have "\<bar>real_of_int m / 2 ^ (52 - k)\<bar> \<le> \<bar>real_of_int m\<bar>"
    by (simp add: abs_divide divide_le_eq)
  with 1 2 have 3: "\<bar>real_of_int m / 2 ^ (52 - k)\<bar> < 2 ^ 53 + 1 / 2" by linarith
  have 4: "(2::real) powr 1024 = 2 ^ 1024"
    using powr_realpow [of 2 1024] by simp
  have "(2::real) ^ 53 + 1 / 2 < 2 ^ 1024" by simp
  with 3 4 have small: "\<not> 2 powr 1024 \<le> \<bar>real_of_int m / 2 ^ (52 - k)\<bar>" by linarith
  have "x / (1 / 2 ^ (52 - k)) = z"
    unfolding z_def by simp
  with nz small show ?thesis
    unfolding float64_round_def Let_def e ulp m_def [symmetric] z_def [symmetric]
    by (simp add: m_def)
qed

lemma float64_round_exact:
  assumes "2 ^ k \<le> \<bar>x\<bar>" and "\<bar>x\<bar> < 2 ^ Suc k" and "k \<le> 52" and "x * 2 ^ (52 - k) \<in> \<int>"
  shows "float64_round x = Finite x"
proof -
  from assms(4) obtain m where m: "x * 2 ^ (52 - k) = of_int m"
    by (auto elim: Ints_cases)
  then have "of_int (round_half_even (x * 2 ^ (52 - k))) / 2 ^ (52 - k) = x"
    by (simp add: field_simps)
  with float64_round_normal [OF assms(1-3)] show ?thesis by simp
qed

text \<open>The float64 operations the example datasets need, evaluated.\<close>

lemma float64_round_16_32:
  "float64_round 29.75 = Finite 29.75"
  "float64_round 29.765625 = Finite 29.765625"
  by (rule float64_round_exact [of 4]; simp)+

lemma float64_round_32_64:
  "float64_round 59.53125 = Finite 59.53125"
  "float64_round 40.6875 = Finite 40.6875"
  "float64_round 40.703125 = Finite 40.703125"
  "float64_round 32.75 = Finite 32.75"
  "float64_round 32.8125 = Finite 32.8125"
  "float64_round 33.5 = Finite 33.5"
  "float64_round (33.5 + 1 / 2 ^ 47) = Finite (33.5 + 1 / 2 ^ 47)"
  by (rule float64_round_exact [of 5]; simp)+

lemma float64_round_64_128:
  "float64_round (- 95.375) = Finite (- 95.375)"
  "float64_round (- 95.3671875) = Finite (- 95.3671875)"
  "float64_round 81.40625 = Finite 81.40625"
  "float64_round (- 74) = Finite (- 74)"
  "float64_round (- 74.0078125) = Finite (- 74.0078125)"
  "float64_round 65.625 = Finite 65.625"
  "float64_round (- 96.75) = Finite (- 96.75)"
  "float64_round (- 96.71875) = Finite (- 96.71875)"
  "float64_round (- 95.5) = Finite (- 95.5)"
  by (rule float64_round_exact [of 6]; simp)+

lemma float64_round_128_256:
  "float64_round (- 190.734375) = Finite (- 190.734375)"
  "float64_round (- 148.015625) = Finite (- 148.015625)"
  "float64_round (- 193.4375) = Finite (- 193.4375)"
  "float64_round (- 191) = Finite (- 191)"
  by (rule float64_round_exact [of 7]; simp)+

lemma float64_round_tie: "float64_round (67 + 1 / 2 ^ 47) = Finite 67"
  by (subst float64_round_normal [of 6]) (simp_all add: round_half_even_def)

lemmas float64_rounded =
  float64_round_16_32 [simplified] float64_round_32_64 [simplified]
  float64_round_64_128 [simplified] float64_round_128_256 [simplified]
  float64_round_tie [simplified]

section \<open>The example runs, evaluated\<close>

lemmas example_defs =
  region_loop_eq region_frames_def LOCATIONS_def failing_houston_env_def rich_env_def writing_env_def
  failing_houston_client_def rich_client_def many_features_def configure_osmnx_historical_def
  configure_osmnx_current_def start_world_def HISTORICAL_DATE_def dallas_historical_def
  dallas_current_def convert_to_centroids_def clean_and_filter_def Let_def add_column_def
  tag_columns_def KEEP_COLUMNS_def len_def

lemma failing_houston_historical:
  "map len (fst (region_loop failing_houston_env LOCATIONS build_tags_dict True []
                   (configure_osmnx_historical start_world))) = [1]"
  by (simp add: example_defs)

lemma failing_houston_current:
  "map len (fst (region_loop failing_houston_env LOCATIONS build_tags_dict False []
                   (configure_osmnx_current
                      (snd (region_loop failing_houston_env LOCATIONS build_tags_dict True []
                              (configure_osmnx_historical start_world)))))) = [2]"
  by (simp add: example_defs)

lemma rich_historical:
  "map len (fst (region_loop rich_env LOCATIONS build_tags_dict True []
                   (configure_osmnx_historical start_world))) = [30, 25]"
  by (simp add: example_defs)

section \<open>What a run of the main function leaves\<close>

lemma final_df_main:
  "final_df (main E w0) =
     (if all_data (main E w0) = [] then None
      else Some (drop_duplicates [''lat'', ''lon''] (concat_frames (all_data (main E w0)))))"
  by (rule main_cases [of E w0]) (simp add: finish_fields)

lemma all_data_main_invariant:
  assumes "d \<in> set (all_data (main E w0))"
  shows "0 < len d \<and> ''lat'' \<in> set (columns d) \<and> ''lon'' \<in> set (columns d)"
proof (rule main_cases [of E w0])
  fix uh locs w
  assume "main E w0 = finish E uh (fst (region_loop E locs build_tags_dict uh [] w))
                        (snd (region_loop E locs build_tags_dict uh [] w))"
  with assms have "d \<in> set (fst (region_loop E locs build_tags_dict uh [] w))"
    by (simp add: finish_fields)
  then show ?thesis by (rule region_loop_invariant)
qed

lemma fs_main:
  "fs (end_world (main E w0)) =
     (if all_data (main E w0) = [] then fs w0
      else snd (save_output E (drop_duplicates [''lat'', ''lon''] (concat_frames (all_data (main E w0))))
                  (path_join (getcwd E) OUTPUT_FILE) (Some (path_join (getcwd E) OUTPUT_GEOJSON)) (fs w0)))"
proof (rule main_cases [of E w0])
  fix uh locs w
  assume m: "main E w0 = finish E uh (fst (region_loop E locs build_tags_dict uh [] w))
                        (snd (region_loop E locs build_tags_dict uh [] w))"
    and w: "fs w = fs w0"
  show ?thesis
  proof (cases "fst (region_loop E locs build_tags_dict uh [] w) = []")
    case True
    with m w show ?thesis by (simp add: finish_fields finish_empty fs_region_loop)
  next
    case False
    with m w show ?thesis by (simp add: finish_fields finish_files fs_region_loop)
  qed
qed

lemma report_main:
  "final_report (main E w0) =
     (if all_data (main E w0) = [] then None
      else Some (let final = drop_duplicates [''lat'', ''lon''] (concat_frames (all_data (main E w0)));
                     rep = snd (verify_data E (Some final));
                     file_saved = fst (save_output E final (path_join (getcwd E) OUTPUT_FILE)
                                         (Some (path_join (getcwd E) OUTPUT_GEOJSON)) (fs w0))
                 in rep\<lparr>check_file := file_saved,
                        errors := errors rep @ (if file_saved then [] else [File_Creation_Failed])\<rparr>))"
proof (rule main_cases [of E w0])
  fix uh locs w
  assume m: "main E w0 = finish E uh (fst (region_loop E locs build_tags_dict uh [] w))
                        (snd (region_loop E locs build_tags_dict uh [] w))"
    and w: "fs w = fs w0"
  show ?thesis
  proof (cases "fst (region_loop E locs build_tags_dict uh [] w) = []")
    case True
    with m w show ?thesis by (simp add: finish_fields finish_empty)
  next
    case False
    with m w show ?thesis by (simp add: finish_fields finish_report fs_region_loop)
  qed
qed

lemma returned_main:
  "returned (main E w0) =
     (all_data (main E w0) \<noteq> []
      \<and> fst (verify_data E (Some (drop_duplicates [''lat'', ''lon''] (concat_frames (all_data (main E w0))))))
      \<and> fst (save_output E (drop_duplicates [''lat'', ''lon''] (concat_frames (all_data (main E w0))))
               (path_join (getcwd E) OUTPUT_FILE) (Some (path_join (getcwd E) OUTPUT_GEOJSON)) (fs w0)))"
proof (rule main_cases [of E w0])
  fix uh locs w
  assume m: "main E w0 = finish E uh (fst (region_loop E locs build_tags_dict uh [] w))
                        (snd (region_loop E locs build_tags_dict uh [] w))"
    and w: "fs w = fs w0"
  show ?thesis
  proof (cases "fst (region_loop E locs build_tags_dict uh [] w) = []")
    case True
    with m w show ?thesis by (simp add: finish_fields finish_empty)
  next
    case False
    with m w show ?thesis by (simp add: finish_fields finish_returned fs_region_loop Let_def)
  qed
qed

lemma final_df_main_invariant:
  assumes "final_df (main E w0) = Some df"
  shows "len df \<noteq> 0 \<and> ''lat'' \<in> set (columns df) \<and> ''lon'' \<in> set (columns df)"
proof -
  from assms have ne: "all_data (main E w0) \<noteq> []"
    and df: "df = drop_duplicates [''lat'', ''lon''] (concat_frames (all_data (main E w0)))"
    by (auto simp: final_df_main split: if_splits)
  from merged_invariant [OF ne] all_data_main_invariant [of _ E w0] show ?thesis
    unfolding df by blast
qed

lemma path_join_nonempty: "b \<noteq> [] \<Longrightarrow> path_join a b \<noteq> []"
  by (simp add: path_join_def)

lemma save_output_files:
  assumes "p \<noteq> []" and "''lat'' \<in> set (columns df)" and "''lon'' \<in> set (columns df)"
  shows "snd (save_output E df csv_path (Some p) files) =
           (if snd (to_csv E df csv_path files) = None
               \<and> path_exists E (fst (to_csv E df csv_path files)) csv_path
            then fst (to_file E df p (fst (to_csv E df csv_path files)))
            else fst (to_csv E df csv_path files))"
  using assms
  by (cases "to_csv E df csv_path files")
     (auto simp: save_output_def split: option.split prod.split)

lemma overall_report_file:
  assumes "final_report (main E w0) = Some rep"
  shows "check_file rep
         = fst (save_output E (drop_duplicates [''lat'', ''lon''] (concat_frames (all_data (main E w0))))
                  (path_join (getcwd E) OUTPUT_FILE)
                  (Some (path_join (getcwd E) OUTPUT_GEOJSON)) (fs w0))"
  using assms by (auto simp: report_main Let_def split: if_splits)

lemma failing_houston_all_data:
  "all_data (main failing_houston_env start_world)
     = fst (region_loop failing_houston_env LOCATIONS build_tags_dict False []
              (configure_osmnx_current
                 (snd (region_loop failing_houston_env LOCATIONS build_tags_dict True []
                         (configure_osmnx_historical start_world)))))"
proof -
  have "sum_list (map len (fst (region_loop failing_houston_env LOCATIONS build_tags_dict True []
                   (configure_osmnx_historical start_world)))) < 50"
    unfolding failing_houston_historical by simp
  then show ?thesis by (simp add: main_eq Let_def finish_fields)
qed

lemma failing_houston_nonempty: "all_data (main failing_houston_env start_world) \<noteq> []"
proof -
  from failing_houston_current have "map len (all_data (main failing_houston_env start_world)) = [2]"
    by (simp only: failing_houston_all_data)
  then show ?thesis by auto
qed


lemma failing_houston_final_columns:
  "columns (drop_duplicates [''lat'', ''lon''] (concat_frames (all_data (main failing_houston_env start_world))))
   = [''element_type'', ''osmid'', ''power'', ''amenity'', ''lat'', ''lon'', ''city_source'']"
  unfolding failing_houston_all_data
  by (simp add: example_defs drop_duplicates_def concat_frames_def)


lemma failing_houston_verify:
  "verify_data failing_houston_env (Some (drop_duplicates [''lat'', ''lon'']
                        (concat_frames (all_data (main failing_houston_env start_world)))))
   = (False, \<lparr>check_volume = False, check_coordinates = True, check_location_sanity = True,
              check_file = False, total_records = 2, errors = [Volume_Failed 2]\<rparr>)"
  unfolding failing_houston_all_data
  by (simp add: example_defs drop_duplicates_def concat_frames_def restrict_map_def verify_data_def
        volume_check_def coordinate_check_def location_sanity_check_def initial_report_def
        notna_sum_def mean_def float64_mean_def number_def List.map_filter_simps float64_rounded
        within_bounds_def HOUSTON_DALLAS_LAT_BOUNDS_def HOUSTON_DALLAS_LON_BOUNDS_def)

lemma failing_houston_env_fields:
  "to_csv failing_houston_env = (\<lambda>df p files. (p # files, None))"
  "to_file failing_houston_env = (\<lambda>df p files. (p # files, None))"
  "path_exists failing_houston_env = (\<lambda>files p. p \<in> set files)"
  "getcwd failing_houston_env = ''/data''"
  "fs start_world = []"
  by (simp_all add: failing_houston_env_def writing_env_def start_world_def)

lemma failing_houston_save:
  "save_output failing_houston_env
     (drop_duplicates [''lat'', ''lon''] (concat_frames (all_data (main failing_houston_env start_world))))
     (path_join (getcwd failing_houston_env) OUTPUT_FILE)
     (Some (path_join (getcwd failing_houston_env) OUTPUT_GEOJSON)) (fs start_world)
   = (True, [''/data/texas_critical_infra_points_2022.geojson'',
             ''/data/texas_critical_infra_points_2022.csv''])"
  by (simp add: save_output_def failing_houston_final_columns failing_houston_env_fields
        path_join_def OUTPUT_FILE_def OUTPUT_GEOJSON_def)

lemma failing_houston_report:
  "final_report (main failing_houston_env start_world)
   = Some \<lparr>check_volume = False, check_coordinates = True, check_location_sanity = True,
           check_file = True, total_records = 2, errors = [Volume_Failed 2]\<rparr>"
  by (simp add: report_main failing_houston_nonempty failing_houston_verify failing_houston_save Let_def)



lemma region_loop_single:
  "fst (region_loop E [location] tags uh [] w) = region_frames E (ox w) tags location"
  by (simp add: region_loop_eq)


lemma all_data_main_regions:
  "all_data (main E w0)
     = concat (map (region_frames E (ox (end_world (main E w0))) build_tags_dict) LOCATIONS)"
  unfolding main_eq Let_def
  by (simp add: finish_fields region_loop_eq)

lemma subseq_drop_duplicate_rows: "subseq (drop_duplicate_rows subs seen rs) rs"
  by (induction rs arbitrary: seen) auto











section \<open>The claims\<close>

text \<open>
  C1. With \<open>historical\<close> the record sets the HISTORICAL pass collects and \<open>current\<close>
  those a CURRENT pass collects afterwards: the run ends in historical mode if and only
  if the total historical yield is not below 50; the record sets fed to the aggregator
  are \<open>current\<close> alone when the yield is below 50 and \<open>historical\<close> alone otherwise,
  never both; the final dataset is the deduplicated merge of exactly these; and the
  queries of a CURRENT pass are sent if and only if the yield is below 50.
\<close>

theorem fallback_iff_historical_yield_below_50:
  assumes "region_loop E LOCATIONS build_tags_dict True [] (configure_osmnx_historical w0) = (historical, w1)"
    and "region_loop E LOCATIONS build_tags_dict False [] (configure_osmnx_current w1) = (current, w2)"
  shows "use_historical (main E w0) = (\<not> sum_list (map len historical) < 50)
       \<and> all_data (main E w0) = (if sum_list (map len historical) < 50 then current else historical)
       \<and> final_df (main E w0) =
           (if all_data (main E w0) = [] then None
            else Some (drop_duplicates [''lat'', ''lon''] (concat_frames (all_data (main E w0)))))
       \<and> queries (end_world (main E w0)) =
           queries w0 @ map (Pair (ox (configure_osmnx_historical w0))) LOCATIONS
             @ (if sum_list (map len historical) < 50
                then map (Pair (ox (configure_osmnx_current w1))) LOCATIONS else [])"
proof -
  have q1: "queries w1 = queries w0 @ map (Pair (ox (configure_osmnx_historical w0))) LOCATIONS"
    using assms(1) by (auto simp: region_loop_eq configure_osmnx_historical_def)
  have q2: "queries w2 = queries w1 @ map (Pair (ox (configure_osmnx_current w1))) LOCATIONS"
    using assms(2) by (auto simp: region_loop_eq configure_osmnx_current_def)
  show ?thesis
  proof (cases "sum_list (map len historical) < 50")
    case True
    with assms have "main E w0 = finish E False current w2"
      by (simp add: main_eq)
    with True q1 q2 show ?thesis by (simp add: finish_fields)
  next
    case False
    with assms have "main E w0 = finish E True historical w1"
      by (simp add: main_eq)
    with False q1 show ?thesis by (simp add: finish_fields)
  qed
qed

theorem fallback_iff_historical_yield_below_50_witness:
  "\<not> use_historical (main failing_houston_env start_world)
   \<and> map len (all_data (main failing_houston_env start_world)) = [2]
   \<and> map snd (queries (end_world (main failing_houston_env start_world))) = LOCATIONS @ LOCATIONS
   \<and> use_historical (main rich_env start_world)
   \<and> map len (all_data (main rich_env start_world)) = [30, 25]
   \<and> map snd (queries (end_world (main rich_env start_world))) = LOCATIONS"
proof -
  note sparse = fallback_iff_historical_yield_below_50
    [OF prod.collapse [symmetric] prod.collapse [symmetric], of failing_houston_env start_world]
  note rich = fallback_iff_historical_yield_below_50
    [OF prod.collapse [symmetric] prod.collapse [symmetric], of rich_env start_world]
  have a: "sum_list (map len (fst (region_loop failing_houston_env LOCATIONS build_tags_dict True []
                   (configure_osmnx_historical start_world)))) < 50"
    unfolding failing_houston_historical by simp
  have b: "\<not> sum_list (map len (fst (region_loop rich_env LOCATIONS build_tags_dict True []
                   (configure_osmnx_historical start_world)))) < 50"
    unfolding rich_historical by simp
  from sparse a failing_houston_current
  have 1: "\<not> use_historical (main failing_houston_env start_world)"
    and 2: "map len (all_data (main failing_houston_env start_world)) = [2]"
    and 3: "map snd (queries (end_world (main failing_houston_env start_world))) = LOCATIONS @ LOCATIONS"
    by (simp_all add: start_world_def o_def)
  from rich b rich_historical
  have 4: "use_historical (main rich_env start_world)"
    and 5: "map len (all_data (main rich_env start_world)) = [30, 25]"
    and 6: "map snd (queries (end_world (main rich_env start_world))) = LOCATIONS"
    by (simp_all add: start_world_def o_def)
  from 1 2 3 4 5 6 show ?thesis by (intro conjI)
qed




text \<open>
  C3. The record sets \<open>X\<close> of the regions are merged in the order of the list, every
  record kept, and then deduplicated. Doing so for \<open>X\<close> followed by itself gives the
  same dataset as for \<open>X\<close>. The deduplicated dataset keeps the order of the merged
  records, has no two records with the same coordinate pair, and for every coordinate
  pair its record with that pair is the earliest record of the merged input with that
  pair. In a run, the merged record sets are those of the regions in the order of
  \<^verbatim>\<open>LOCATIONS\<close>, under the settings of the final pass, and the final dataset is their
  deduplicated merge. (Cells are compared as pandas compares them: two missing values
  count as equal.)
\<close>

theorem deduplication_idempotent_first_kept:
  "drop_duplicates [''lat'', ''lon''] (concat_frames (X @ X))
     = drop_duplicates [''lat'', ''lon''] (concat_frames X)
   \<and> rows (concat_frames X) = concat (map rows X)
   \<and> subseq (rows (drop_duplicates [''lat'', ''lon''] (concat_frames X))) (concat (map rows X))
   \<and> find (\<lambda>r. r ''lat'' = a \<and> r ''lon'' = b)
        (rows (drop_duplicates [''lat'', ''lon''] (concat_frames X)))
       = find (\<lambda>r. r ''lat'' = a \<and> r ''lon'' = b) (concat (map rows X))
   \<and> distinct (map (\<lambda>r. (r ''lat'', r ''lon''))
                 (rows (drop_duplicates [''lat'', ''lon''] (concat_frames X))))
   \<and> all_data (main E w0)
       = concat (map (\<lambda>location. fst (region_loop E [location] build_tags_dict uh []
                                        (end_world (main E w0)))) LOCATIONS)
   \<and> final_df (main E w0)
       = (if all_data (main E w0) = [] then None
          else Some (drop_duplicates [''lat'', ''lon''] (concat_frames (all_data (main E w0)))))"
proof -
  have doubled: "drop_duplicates [''lat'', ''lon''] (concat_frames (X @ X))
                   = drop_duplicates [''lat'', ''lon''] (concat_frames X)"
  proof -
    have "columns (concat_frames (X @ X)) = columns (concat_frames X)"
      by (rule concat_frames_doubled_columns)
    moreover have "rows (concat_frames (X @ X)) = rows (concat_frames X) @ rows (concat_frames X)"
      by (simp add: concat_frames_def)
    ultimately show ?thesis
      by (simp add: drop_duplicates_def drop_duplicate_rows_doubled)
  qed
  have merged: "rows (concat_frames X) = concat (map rows X)"
    by (rule rows_concat_frames)
  have order: "subseq (rows (drop_duplicates [''lat'', ''lon''] (concat_frames X))) (concat (map rows X))"
    unfolding rows_drop_duplicates merged by (rule subseq_drop_duplicate_rows)
  have first: "find (\<lambda>r. r ''lat'' = a \<and> r ''lon'' = b)
                 (rows (drop_duplicates [''lat'', ''lon''] (concat_frames X)))
               = find (\<lambda>r. r ''lat'' = a \<and> r ''lon'' = b) (concat (map rows X))"
    using find_drop_duplicate_rows [of "[''lat'', ''lon'']" "[a, b]" "[]" "concat (map rows X)"]
    by (simp add: rows_drop_duplicates merged)
  have "distinct (map (\<lambda>r. map r [''lat'', ''lon''])
                   (rows (drop_duplicates [''lat'', ''lon''] (concat_frames X))))"
    unfolding rows_drop_duplicates by (rule distinct_drop_duplicate_rows)
  then have once: "distinct (map (\<lambda>r. (r ''lat'', r ''lon''))
                     (rows (drop_duplicates [''lat'', ''lon''] (concat_frames X))))"
    by (auto simp: distinct_map inj_on_def)
  have regions: "all_data (main E w0)
       = concat (map (\<lambda>location. fst (region_loop E [location] build_tags_dict uh []
                                        (end_world (main E w0)))) LOCATIONS)"
    unfolding region_loop_single by (rule all_data_main_regions)
  from doubled merged order first once regions final_df_main [of E w0]
  show ?thesis by (intro conjI)
qed

theorem deduplication_idempotent_first_kept_witness:
  "map (\<lambda>r. r ''city_source'')
     (rows (drop_duplicates [''lat'', ''lon''] (concat_frames [houston_records, dallas_records])))
     = [Some (Str ''Houston''), Some (Str ''Houston''), Some (Str ''Dallas'')]
   \<and> find (\<lambda>r. r ''lat'' = Some (Num 31.5) \<and> r ''lon'' = Some (Num (- 96.25)))
        (rows (drop_duplicates [''lat'', ''lon''] (concat_frames [houston_records, dallas_records])))
       = Some (rows houston_records ! 1)
   \<and> len (drop_duplicates [''lat'', ''lon'']
             (concat_frames ([houston_records, dallas_records] @ [houston_records, dallas_records]))) = 3"
proof -
  note t = deduplication_idempotent_first_kept
    [of "[houston_records, dallas_records]" "Some (Num 31.5)" "Some (Num (- 96.25))"]
  have c: "map (\<lambda>r. r ''city_source'')
     (rows (drop_duplicates [''lat'', ''lon''] (concat_frames [houston_records, dallas_records])))
     = [Some (Str ''Houston''), Some (Str ''Houston''), Some (Str ''Dallas'')]"
    by (simp add: drop_duplicates_def concat_frames_def houston_records_def dallas_records_def)
  have f: "find (\<lambda>r. r ''lat'' = Some (Num 31.5) \<and> r ''lon'' = Some (Num (- 96.25)))
             (concat (map rows [houston_records, dallas_records]))
           = Some (rows houston_records ! 1)"
    by (simp add: houston_records_def dallas_records_def)
  from c have l: "len (drop_duplicates [''lat'', ''lon''] (concat_frames [houston_records, dallas_records])) = 3"
    unfolding len_def by (metis length_map length_Cons list.size(3) numeral_3_eq_3)
  from t have d: "drop_duplicates [''lat'', ''lon'']
             (concat_frames ([houston_records, dallas_records] @ [houston_records, dallas_records]))
           = drop_duplicates [''lat'', ''lon''] (concat_frames [houston_records, dallas_records])"
    and e: "find (\<lambda>r. r ''lat'' = Some (Num 31.5) \<and> r ''lon'' = Some (Num (- 96.25)))
             (rows (drop_duplicates [''lat'', ''lon''] (concat_frames [houston_records, dallas_records])))
           = find (\<lambda>r. r ''lat'' = Some (Num 31.5) \<and> r ''lon'' = Some (Num (- 96.25)))
               (concat (map rows [houston_records, dallas_records]))"
    by (rule conjunct1, rule conjunct1 [OF conjunct2 [OF conjunct2 [OF conjunct2]]])
  from d l have l2: "len (drop_duplicates [''lat'', ''lon'']
             (concat_frames ([houston_records, dallas_records] @ [houston_records, dallas_records]))) = 3"
    by (simp only:)
  from e f have f2: "find (\<lambda>r. r ''lat'' = Some (Num 31.5) \<and> r ''lon'' = Some (Num (- 96.25)))
        (rows (drop_duplicates [''lat'', ''lon''] (concat_frames [houston_records, dallas_records])))
       = Some (rows houston_records ! 1)"
    by (simp only:)
  from c f2 l2 show ?thesis by (intro conjI)
qed

text \<open>
  C4, as amended. When the frame has at least one of the five category columns (after
  \<^verbatim>\<open>reset_index\<close>), every record of the cleaner's output has a non-null value in one of
  the five category fields, and the output has exactly the records that have a non-null
  value in a category column of the frame: a record with none is dropped. When the frame
  has none of the five columns, the mask is not applied and no record is dropped.
\<close>

theorem clean_and_filter_keeps_tagged:
  assumes "clean_and_filter (Some g) city_name = Some d"
  shows "(list_ex (\<lambda>col. col \<in> set (index_names g @ gcolumns g)) tag_columns \<longrightarrow>
            (\<forall>r\<in>set (rows d). \<exists>col\<in>set tag_columns. r col \<noteq> None) \<and>
            len d = length (filter (\<lambda>(geom, r). \<exists>col\<in>set tag_columns.
                                      col \<in> set (index_names g @ gcolumns g) \<and> r col \<noteq> None) (features g)))
       \<and> (\<not> list_ex (\<lambda>col. col \<in> set (index_names g @ gcolumns g)) tag_columns \<longrightarrow>
            len d = length (features g))"
proof -
  define cols where "cols = index_names g @ add_column ''city_source'' (gcolumns g)"
  define existing where "existing = filter (\<lambda>col. col \<in> set cols) tag_columns"
  define rows1 where "rows1 = map (\<lambda>(geom, r). r(''city_source'' \<mapsto> Str city_name)) (features g)"
  define tagged where "tagged = (\<lambda>(geom :: 'a, r :: row). \<exists>col\<in>set tag_columns.
                                      col \<in> set (index_names g @ gcolumns g) \<and> r col \<noteq> None)"
  from assms have nonempty: "features g \<noteq> []"
    by (auto simp: clean_and_filter_def split: if_splits)
  have "clean_and_filter (Some g) city_name =
          Some \<lparr>columns = available_columns cols,
                rows = map (\<lambda>r. r |` set (available_columns cols))
                        (if existing \<noteq> [] then filter (\<lambda>r. list_ex (\<lambda>col. r col \<noteq> None) existing) rows1
                         else rows1)\<rparr>"
    unfolding cols_def existing_def rows1_def
    using clean_and_filter_Some [OF nonempty, of city_name] unfolding Let_def .
  with assms
  have d: "d = \<lparr>columns = available_columns cols,
                rows = map (\<lambda>r. r |` set (available_columns cols))
                        (if existing \<noteq> [] then filter (\<lambda>r. list_ex (\<lambda>col. r col \<noteq> None) existing) rows1
                         else rows1)\<rparr>"
    by (simp only: option.inject)
  have ex_iff: "existing = [] \<longleftrightarrow> \<not> list_ex (\<lambda>col. col \<in> set (index_names g @ gcolumns g)) tag_columns"
    unfolding existing_def cols_def by (rule existing_tag_cols_empty)
  have set_existing: "set existing = {c \<in> set tag_columns. c \<in> set (index_names g @ gcolumns g)}"
    unfolding existing_def cols_def by (rule set_existing_tag_cols)
  have untagged: "len d = length (features g)" if "existing = []"
    using that by (simp add: d len_def rows1_def)
  have tagged_rows: "\<forall>r\<in>set (rows d). \<exists>col\<in>set tag_columns. r col \<noteq> None" if "existing \<noteq> []"
  proof
    fix r assume "r \<in> set (rows d)"
    with that obtain r1 where r1: "list_ex (\<lambda>col. r1 col \<noteq> None) existing"
      and r: "r = r1 |` set (available_columns cols)"
      by (auto simp: d)
    from r1 obtain col where col: "col \<in> set existing" "r1 col \<noteq> None"
      unfolding list_ex_iff by blast
    from col(1) have tag: "col \<in> set tag_columns" and "col \<in> set cols"
      by (simp_all add: existing_def)
    then have "col \<in> set (available_columns cols)"
      by (intro available_columns_keep tag_columns_KEEP)
    with col(2) r have "r col \<noteq> None" by (simp add: restrict_map_def)
    with tag show "\<exists>col\<in>set tag_columns. r col \<noteq> None" by blast
  qed
  have mask: "list_ex (\<lambda>col. (r(''city_source'' \<mapsto> Str city_name)) col \<noteq> None) existing \<longleftrightarrow> tagged (geom, r)"
    for r geom
  proof -
    have "list_ex (\<lambda>col. (r(''city_source'' \<mapsto> Str city_name)) col \<noteq> None) existing \<longleftrightarrow>
          (\<exists>col\<in>set existing. (r(''city_source'' \<mapsto> Str city_name)) col \<noteq> None)"
      by (simp only: list_ex_iff)
    also have "\<dots> \<longleftrightarrow> (\<exists>col\<in>set existing. r col \<noteq> None)"
    proof (rule bex_cong [OF refl])
      fix col assume "col \<in> set existing"
      then have "col \<in> set tag_columns" by (simp add: existing_def)
      then have "col \<noteq> ''city_source''" by (rule tag_not_city_source)
      then show "((r(''city_source'' \<mapsto> Str city_name)) col \<noteq> None) = (r col \<noteq> None)" by simp
    qed
    also have "\<dots> \<longleftrightarrow> tagged (geom, r)"
      unfolding set_existing tagged_def by blast
    finally show ?thesis .
  qed
  have tagged_len: "len d = length (filter tagged (features g))" if "existing \<noteq> []"
  proof -
    have step: "((\<lambda>r. list_ex (\<lambda>col. r col \<noteq> None) existing) \<circ>
                 (\<lambda>(geom, r). r(''city_source'' \<mapsto> Str city_name))) x = tagged x" for x
      by (cases x) (simp only: o_def prod.case mask)
    have "filter (\<lambda>r. list_ex (\<lambda>col. r col \<noteq> None) existing) rows1 =
          map (\<lambda>(geom, r). r(''city_source'' \<mapsto> Str city_name)) (filter tagged (features g))"
      unfolding rows1_def filter_map
      by (rule arg_cong [where f = "map _"], rule filter_cong [OF refl], rule step)
    with that show ?thesis by (simp add: d len_def)
  qed
  from untagged tagged_rows tagged_len ex_iff show ?thesis
    unfolding tagged_def by blast
qed

theorem clean_and_filter_untagged_counterexample:
  "clean_and_filter (Some untagged_frame) ''Houston'' \<noteq> None
   \<and> len (the (clean_and_filter (Some untagged_frame) ''Houston'')) = 1
   \<and> map (rows (the (clean_and_filter (Some untagged_frame) ''Houston'')) ! 0) tag_columns
       = [None, None, None, None, None]"
  by (simp add: clean_and_filter_def untagged_frame_def add_column_def tag_columns_def
        KEEP_COLUMNS_def len_def restrict_map_def Let_def)

theorem clean_and_filter_keeps_tagged_witness:
  "clean_and_filter (Some tagged_frame) ''Houston'' \<noteq> None
   \<and> list_ex (\<lambda>col. col \<in> set (index_names tagged_frame @ gcolumns tagged_frame)) tag_columns
   \<and> len (the (clean_and_filter (Some tagged_frame) ''Houston'')) = 1
   \<and> (rows (the (clean_and_filter (Some tagged_frame) ''Houston'')) ! 0) ''power'' = Some (Str ''plant'')
   \<and> \<not> list_ex (\<lambda>col. col \<in> set (index_names untagged_frame @ gcolumns untagged_frame)) tag_columns
   \<and> len (the (clean_and_filter (Some untagged_frame) ''Houston'')) = length (features untagged_frame)"
proof -
  have ne: "clean_and_filter (Some tagged_frame) ''Houston'' \<noteq> None"
    by (simp add: clean_and_filter_def tagged_frame_def Let_def)
  then have t: "clean_and_filter (Some tagged_frame) ''Houston'' = Some (the (clean_and_filter (Some tagged_frame) ''Houston''))"
    by (rule option.collapse [symmetric])
  have "clean_and_filter (Some untagged_frame) ''Houston'' \<noteq> None"
    by (simp add: clean_and_filter_def untagged_frame_def Let_def)
  then have u: "clean_and_filter (Some untagged_frame) ''Houston'' = Some (the (clean_and_filter (Some untagged_frame) ''Houston''))"
    by (rule option.collapse [symmetric])
  have p: "(rows (the (clean_and_filter (Some tagged_frame) ''Houston'')) ! 0) ''power'' = Some (Str ''plant'')"
    by (simp add: clean_and_filter_def tagged_frame_def add_column_def tag_columns_def
        KEEP_COLUMNS_def restrict_map_def Let_def)
  have l: "length (filter (\<lambda>(geom, r). \<exists>col\<in>set tag_columns.
              col \<in> set (index_names tagged_frame @ gcolumns tagged_frame) \<and> r col \<noteq> None) (features tagged_frame)) = 1"
    by (simp add: tagged_frame_def tag_columns_def)
  have lt: "list_ex (\<lambda>col. col \<in> set (index_names tagged_frame @ gcolumns tagged_frame)) tag_columns"
    by (simp add: tagged_frame_def tag_columns_def)
  have lu: "\<not> list_ex (\<lambda>col. col \<in> set (index_names untagged_frame @ gcolumns untagged_frame)) tag_columns"
    by (simp add: untagged_frame_def tag_columns_def)
  from clean_and_filter_keeps_tagged [OF t] lt
  have "len (the (clean_and_filter (Some tagged_frame) ''Houston'')) = length (filter (\<lambda>(geom, r). \<exists>col\<in>set tag_columns.
              col \<in> set (index_names tagged_frame @ gcolumns tagged_frame) \<and> r col \<noteq> None) (features tagged_frame))"
    by blast
  with l have a: "len (the (clean_and_filter (Some tagged_frame) ''Houston'')) = 1"
    by (simp only:)
  from clean_and_filter_keeps_tagged [OF u] lu
  have b: "len (the (clean_and_filter (Some untagged_frame) ''Houston'')) = length (features untagged_frame)"
    by blast
  from ne lt a p lu b show ?thesis by (intro conjI)
qed

text \<open>
  C5. For the final dataset of every run that reaches the verifier: the value the run
  returns is the conjunction of the four checks of the report (volume, coordinates,
  location sanity, file); each check is recorded as its own condition on the dataset,
  whatever the other checks gave; and the error list is made of one diagnostic for each
  failed check, in the order of the checks, and of nothing else, so that it has as many
  entries as there are failed checks. (The final dataset of a run is never empty and has
  the columns \<^verbatim>\<open>lat\<close> and \<^verbatim>\<open>lon\<close>; on other frames \<^verbatim>\<open>verify_data\<close> returns early
  or skips the third check.)
\<close>

theorem overall_success_is_conjunction_of_checks:
  assumes "final_report (main E w0) = Some rep"
  shows "\<exists>df. final_df (main E w0) = Some df
     \<and> returned (main E w0)
         = (check_volume rep \<and> check_coordinates rep \<and> check_location_sanity rep \<and> check_file rep)
     \<and> check_volume rep = (100 < len df)
     \<and> check_coordinates rep = (0 < notna_sum ''lat'' df \<and> 0 < notna_sum ''lon'' df)
     \<and> check_location_sanity rep
         = (within_bounds HOUSTON_DALLAS_LAT_BOUNDS (mean E ''lat'' df)
            \<and> within_bounds HOUSTON_DALLAS_LON_BOUNDS (mean E ''lon'' df))
     \<and> check_file rep
         = fst (save_output E df (path_join (getcwd E) OUTPUT_FILE)
                  (Some (path_join (getcwd E) OUTPUT_GEOJSON)) (fs w0))
     \<and> errors rep
         = (if check_volume rep then [] else [Volume_Failed (len df)])
         @ (if check_coordinates rep then [] else [No_Valid_Coordinates])
         @ (if check_location_sanity rep then [] else [Mean_Outside (mean E ''lat'' df) (mean E ''lon'' df)])
         @ (if check_file rep then [] else [File_Creation_Failed])
     \<and> length (errors rep)
         = length (filter Not [check_volume rep, check_coordinates rep,
                               check_location_sanity rep, check_file rep])"
proof -
  define df where "df = drop_duplicates [''lat'', ''lon''] (concat_frames (all_data (main E w0)))"
  define saved where "saved = fst (save_output E df (path_join (getcwd E) OUTPUT_FILE)
                  (Some (path_join (getcwd E) OUTPUT_GEOJSON)) (fs w0))"
  from assms have ne: "all_data (main E w0) \<noteq> []"
    by (auto simp: report_main split: if_splits)
  then have final: "final_df (main E w0) = Some df"
    by (simp add: final_df_main df_def)
  from final_df_main_invariant [OF final]
  have inv: "len df \<noteq> 0" "''lat'' \<in> set (columns df)" "''lon'' \<in> set (columns df)"
    by simp_all
  note v = verify_data_report [OF inv]
  from assms ne have rep: "rep = (snd (verify_data E (Some df)))\<lparr>check_file := saved,
                  errors := errors (snd (verify_data E (Some df))) @ (if saved then [] else [File_Creation_Failed])\<rparr>"
    by (simp add: report_main df_def saved_def Let_def)
  from ne have ret: "returned (main E w0) = (fst (verify_data E (Some df)) \<and> saved)"
    by (simp add: returned_main df_def saved_def)
  have cv: "check_volume rep = (100 < len df)"
    and cc: "check_coordinates rep = (0 < notna_sum ''lat'' df \<and> 0 < notna_sum ''lon'' df)"
    and cl: "check_location_sanity rep
               = (within_bounds HOUSTON_DALLAS_LAT_BOUNDS (mean E ''lat'' df)
                  \<and> within_bounds HOUSTON_DALLAS_LON_BOUNDS (mean E ''lon'' df))"
    and cf: "check_file rep = saved"
    unfolding rep v by simp_all
  have er: "errors rep
         = (if check_volume rep then [] else [Volume_Failed (len df)])
         @ (if check_coordinates rep then [] else [No_Valid_Coordinates])
         @ (if check_location_sanity rep then [] else [Mean_Outside (mean E ''lat'' df) (mean E ''lon'' df)])
         @ (if check_file rep then [] else [File_Creation_Failed])"
    unfolding cv cc cl cf unfolding rep v by simp
  have r: "returned (main E w0)
         = (check_volume rep \<and> check_coordinates rep \<and> check_location_sanity rep \<and> check_file rep)"
    unfolding cv cc cl cf ret v by simp
  have n: "length (errors rep)
         = length (filter Not [check_volume rep, check_coordinates rep,
                               check_location_sanity rep, check_file rep])"
    unfolding er by simp
  from final r cv cc cl cf [unfolded saved_def] er n show ?thesis by blast
qed

theorem overall_success_is_conjunction_of_checks_witness:
  "final_report (main failing_houston_env start_world)
     = Some \<lparr>check_volume = False, check_coordinates = True, check_location_sanity = True,
             check_file = True, total_records = 2, errors = [Volume_Failed 2]\<rparr>
   \<and> \<not> returned (main failing_houston_env start_world)
   \<and> len (the (final_df (main failing_houston_env start_world))) = 2"
proof -
  from overall_success_is_conjunction_of_checks [OF failing_houston_report]
  obtain df where df: "final_df (main failing_houston_env start_world) = Some df"
    and r: "returned (main failing_houston_env start_world) = (False \<and> True \<and> True \<and> True)"
    and e: "[Volume_Failed 2] = [Volume_Failed (len df)] @ [] @ [] @ []"
    by auto
  from e have "len df = 2" by simp
  with df r failing_houston_report show ?thesis by simp
qed

text \<open>
  C6, as amended. The output writer returns success if and only if the CSV write raises
  nothing, the CSV file is then found on the file system, and the GeoJSON write, when it
  is attempted, raises nothing either. The GeoJSON write is attempted when a non-empty
  path is given and the dataset has the columns \<^verbatim>\<open>lat\<close> and \<^verbatim>\<open>lon\<close>; whether the
  GeoJSON file exists afterwards is not looked at.
\<close>

theorem save_output_success_iff:
  "fst (save_output E df csv_path geojson_path files) =
     (snd (to_csv E df csv_path files) = None
      \<and> path_exists E (fst (to_csv E df csv_path files)) csv_path
      \<and> (case geojson_path of
            None \<Rightarrow> True
          | Some p \<Rightarrow>
              p \<noteq> [] \<and> ''lat'' \<in> set (columns df) \<and> ''lon'' \<in> set (columns df) \<longrightarrow>
              snd (to_file E df p (fst (to_csv E df csv_path files))) = None))"
  by (cases "to_csv E df csv_path files")
     (auto simp: save_output_def split: option.split prod.split)

theorem save_output_geojson_failure_counterexample:
  "\<not> fst (save_output geojson_failing_env houston_points ''out.csv'' (Some ''out.geojson'') [])
   \<and> path_exists geojson_failing_env
        (snd (save_output geojson_failing_env houston_points ''out.csv'' (Some ''out.geojson'') [])) ''out.csv''
   \<and> fst (save_output writing_env houston_points ''out.csv'' (Some ''out.geojson'') [])"
  by (simp add: save_output_def geojson_failing_env_def writing_env_def houston_points_def)

theorem save_output_success_iff_witness:
  "fst (save_output writing_env houston_points ''out.csv'' (Some ''out.geojson'') [])
   \<and> snd (to_csv writing_env houston_points ''out.csv'' []) = None
   \<and> path_exists writing_env (fst (to_csv writing_env houston_points ''out.csv'' [])) ''out.csv''
   \<and> ''out.geojson'' \<noteq> [] \<and> ''lat'' \<in> set (columns houston_points) \<and> ''lon'' \<in> set (columns houston_points)
   \<and> snd (to_file writing_env houston_points ''out.geojson'' (fst (to_csv writing_env houston_points ''out.csv'' []))) = None"
  using save_output_success_iff [of writing_env houston_points "''out.csv''" "Some ''out.geojson''" "[]"]
  by (simp add: writing_env_def houston_points_def)

text \<open>
  C7, as amended. For a non-empty feature set the geometry normaliser returns one record
  for every input feature, in the input's order, whose \<^verbatim>\<open>lat\<close> and \<^verbatim>\<open>lon\<close> are the
  \<^verbatim>\<open>y\<close> and \<^verbatim>\<open>x\<close> of the feature's centroid. Nothing is dropped: a feature whose
  centroid has no coordinates (an empty geometry) stays in the output with both fields
  null, and a record has a coordinate pair exactly when its centroid has one.
\<close>

theorem convert_to_centroids_keeps_every_feature:
  assumes "features g \<noteq> []"
  shows "convert_to_centroids E (Some g) \<noteq> None
     \<and> length (features (the (convert_to_centroids E (Some g)))) = length (features g)
     \<and> (\<forall>i<length (features g).
           snd (features (the (convert_to_centroids E (Some g))) ! i) ''lat''
             = map_option Num (coord_y E (centroid E (fst (features g ! i))))
         \<and> snd (features (the (convert_to_centroids E (Some g))) ! i) ''lon''
             = map_option Num (coord_x E (centroid E (fst (features g ! i)))))"
  using assms by (simp add: convert_to_centroids_def Let_def split: prod.split)

theorem convert_to_centroids_empty_geometry_counterexample:
  "convert_to_centroids writing_env (Some empty_geometry_frame) \<noteq> None
   \<and> length (features (the (convert_to_centroids writing_env (Some empty_geometry_frame)))) = 2
   \<and> snd (features (the (convert_to_centroids writing_env (Some empty_geometry_frame))) ! 0) ''lat'' = None
   \<and> snd (features (the (convert_to_centroids writing_env (Some empty_geometry_frame))) ! 0) ''lon'' = None"
  by (simp add: convert_to_centroids_def empty_geometry_frame_def writing_env_def Let_def)

theorem convert_to_centroids_keeps_every_feature_witness:
  "features empty_geometry_frame \<noteq> []
   \<and> length (features (the (convert_to_centroids writing_env (Some empty_geometry_frame)))) = 2
   \<and> snd (features (the (convert_to_centroids writing_env (Some empty_geometry_frame))) ! 1) ''lat'' = Some (Num 29.76)
   \<and> snd (features (the (convert_to_centroids writing_env (Some empty_geometry_frame))) ! 1) ''lon'' = Some (Num (-95.37))"
proof -
  have ne: "features empty_geometry_frame \<noteq> []"
    by (simp add: empty_geometry_frame_def)
  have two: "length (features empty_geometry_frame) = 2" and one: "1 < length (features empty_geometry_frame)"
    by (simp_all add: empty_geometry_frame_def)
  have c: "centroid writing_env (fst (features empty_geometry_frame ! 1)) = Some (-95.37, 29.76)"
    by (simp add: empty_geometry_frame_def writing_env_def)
  have xy: "coord_y writing_env (Some (-95.37, 29.76)) = Some 29.76"
       "coord_x writing_env (Some (-95.37, 29.76)) = Some (-95.37)"
    by (simp_all add: writing_env_def)
  from convert_to_centroids_keeps_every_feature [OF ne, of writing_env] one two c xy ne
  show ?thesis by simp
qed

text \<open>
  C8. The volume check passes if and only if the dataset has strictly more than 100
  records: a dataset of exactly 100 records fails it, one of 101 records passes. (For
  no dataset at all the check stays failed.)
\<close>

theorem volume_check_strictly_above_100:
  "check_volume (snd (verify_data E (Some d))) = (100 < len d)
   \<and> \<not> check_volume (snd (verify_data E None))
   \<and> (len d = 100 \<longrightarrow> \<not> check_volume (snd (verify_data E (Some d))))
   \<and> (len d = 101 \<longrightarrow> check_volume (snd (verify_data E (Some d))))"
proof -
  have none: "\<not> check_volume (snd (verify_data E None))"
    by (simp add: verify_data_def initial_report_def)
  have some: "check_volume (snd (verify_data E (Some d))) = (100 < len d)"
  proof (cases "len d = 0")
    case True
    then show ?thesis by (simp add: verify_data_def initial_report_def)
  next
    case False
    then show ?thesis
      by (simp add: verify_data_Some check_volume_volume_check initial_report_def)
  qed
  from none some show ?thesis by simp
qed

theorem volume_check_witness:
  "len rows_100 = 100 \<and> \<not> check_volume (snd (verify_data writing_env (Some rows_100)))
   \<and> len rows_101 = 101 \<and> check_volume (snd (verify_data writing_env (Some rows_101)))"
  using volume_check_strictly_above_100 [of writing_env rows_100] volume_check_strictly_above_100 [of writing_env rows_101]
  by (simp add: len_def rows_100_def rows_101_def)




text \<open>
  C10. Whenever a region gave cleaned records, so that a final dataset exists, the file
  system the run leaves is the one \<^verbatim>\<open>save_output\<close> leaves for that dataset, whatever
  the three checks on the dataset gave: the CSV write is always made, and the GeoJSON
  write is made whenever the CSV write raised nothing and left its file. The outcome of
  the write is recorded as the fourth check, from which the returned value is computed.
\<close>

theorem output_written_whatever_the_checks:
  assumes "all_data (main E w0) \<noteq> []"
  shows "\<exists>df rep. final_df (main E w0) = Some df \<and> final_report (main E w0) = Some rep
     \<and> fs (end_world (main E w0))
         = snd (save_output E df (path_join (getcwd E) OUTPUT_FILE)
                  (Some (path_join (getcwd E) OUTPUT_GEOJSON)) (fs w0))
     \<and> fs (end_world (main E w0))
         = (if snd (to_csv E df (path_join (getcwd E) OUTPUT_FILE) (fs w0)) = None
               \<and> path_exists E (fst (to_csv E df (path_join (getcwd E) OUTPUT_FILE) (fs w0)))
                    (path_join (getcwd E) OUTPUT_FILE)
            then fst (to_file E df (path_join (getcwd E) OUTPUT_GEOJSON)
                        (fst (to_csv E df (path_join (getcwd E) OUTPUT_FILE) (fs w0))))
            else fst (to_csv E df (path_join (getcwd E) OUTPUT_FILE) (fs w0)))
     \<and> check_file rep
         = fst (save_output E df (path_join (getcwd E) OUTPUT_FILE)
                  (Some (path_join (getcwd E) OUTPUT_GEOJSON)) (fs w0))"
proof -
  define df where "df = drop_duplicates [''lat'', ''lon''] (concat_frames (all_data (main E w0)))"
  from assms have final: "final_df (main E w0) = Some df"
    by (simp add: final_df_main df_def)
  from final_df_main_invariant [OF final]
  have inv: "''lat'' \<in> set (columns df)" "''lon'' \<in> set (columns df)"
    by simp_all
  from assms obtain rep where rep: "final_report (main E w0) = Some rep"
    by (simp add: report_main)
  from overall_report_file [OF rep]
  have cf: "check_file rep = fst (save_output E df (path_join (getcwd E) OUTPUT_FILE)
                  (Some (path_join (getcwd E) OUTPUT_GEOJSON)) (fs w0))"
    by (simp add: df_def)
  from assms have files: "fs (end_world (main E w0))
         = snd (save_output E df (path_join (getcwd E) OUTPUT_FILE)
                  (Some (path_join (getcwd E) OUTPUT_GEOJSON)) (fs w0))"
    by (simp add: fs_main df_def)
  have "path_join (getcwd E) OUTPUT_GEOJSON \<noteq> []"
    by (rule path_join_nonempty) (simp add: OUTPUT_GEOJSON_def)
  note files' = files [unfolded save_output_files [OF this inv]]
  from final rep files files' cf show ?thesis by blast
qed

theorem output_written_whatever_the_checks_witness:
  "all_data (main failing_houston_env start_world) \<noteq> []
   \<and> \<not> check_volume (the (final_report (main failing_houston_env start_world)))
   \<and> \<not> returned (main failing_houston_env start_world)
   \<and> fs (end_world (main failing_houston_env start_world))
       = [''/data/texas_critical_infra_points_2022.geojson'',
          ''/data/texas_critical_infra_points_2022.csv'']"
proof -
  from output_written_whatever_the_checks [OF failing_houston_nonempty]
  obtain df where df: "final_df (main failing_houston_env start_world) = Some df"
    and files: "fs (end_world (main failing_houston_env start_world))
         = snd (save_output failing_houston_env df (path_join (getcwd failing_houston_env) OUTPUT_FILE)
                  (Some (path_join (getcwd failing_houston_env) OUTPUT_GEOJSON)) (fs start_world))"
    by blast
  from df failing_houston_nonempty
  have "df = drop_duplicates [''lat'', ''lon'']
               (concat_frames (all_data (main failing_houston_env start_world)))"
    by (simp add: final_df_main)
  with files have f: "fs (end_world (main failing_houston_env start_world))
       = [''/data/texas_critical_infra_points_2022.geojson'',
          ''/data/texas_critical_infra_points_2022.csv'']"
    by (simp add: failing_houston_save)
  have v: "\<not> check_volume (the (final_report (main failing_houston_env start_world)))"
    by (simp add: failing_houston_report)
  have r: "\<not> returned (main failing_houston_env start_world)"
    by (simp add: returned_main failing_houston_verify)
  from failing_houston_nonempty v r f show ?thesis by (intro conjI)
qed

end
